theory Spec2Isabelle
  imports Main "HOL-Library.Dlist"
begin

section \<open>The etcd coordination client of the signaling server\<close>

text \<open>
  A shallow embedding of \<^verbatim>\<open>etcd_client.go\<close> (type \<^verbatim>\<open>EtcdClient\<close> and its methods) and of
  the two wait functions of \<^verbatim>\<open>reloadableCredentials\<close>. Every method is a function from the
  state of the \<^verbatim>\<open>EtcdClient\<close> and the answers of its collaborators to a result, the state
  afterwards and the list of effects the method performs, in program order.
\<close>

subsection \<open>Strings\<close>

text \<open>
  A Go string is a sequence of bytes. \<^verbatim>\<open>strings.Split(s, ",")\<close> cuts at every comma and
  returns one piece more than there are commas (the empty string gives one empty piece).
\<close>

fun Split :: "string \<Rightarrow> char \<Rightarrow> string list" where
  "Split [] sep = [[]]"
| "Split (ch # s) sep =
     (if ch = sep then [] # Split s sep
      else (case Split s sep of [] \<Rightarrow> [[ch]] | p # ps \<Rightarrow> (ch # p) # ps))"

text \<open>
  \<^verbatim>\<open>strings.TrimSpace\<close> removes the leading and the trailing white space of a string, as
  \<^verbatim>\<open>unicode.IsSpace\<close> defines it: the runes U+0009 to U+000D, U+0020, U+0085, U+00A0,
  U+1680, U+2000 to U+200A, U+2028, U+2029, U+202F, U+205F and U+3000. \<open>space_runes\<close>
  holds their UTF-8 encodings, in that order.
\<close>

definition space_runes :: "string list" where
  "space_runes =
     [[CHR 0x09], [CHR 0x0A], [CHR 0x0B], [CHR 0x0C], [CHR 0x0D], [CHR 0x20],
      [CHR 0xC2, CHR 0x85], [CHR 0xC2, CHR 0xA0],
      [CHR 0xE1, CHR 0x9A, CHR 0x80],
      [CHR 0xE2, CHR 0x80, CHR 0x80], [CHR 0xE2, CHR 0x80, CHR 0x81],
      [CHR 0xE2, CHR 0x80, CHR 0x82], [CHR 0xE2, CHR 0x80, CHR 0x83],
      [CHR 0xE2, CHR 0x80, CHR 0x84], [CHR 0xE2, CHR 0x80, CHR 0x85],
      [CHR 0xE2, CHR 0x80, CHR 0x86], [CHR 0xE2, CHR 0x80, CHR 0x87],
      [CHR 0xE2, CHR 0x80, CHR 0x88], [CHR 0xE2, CHR 0x80, CHR 0x89],
      [CHR 0xE2, CHR 0x80, CHR 0x8A],
      [CHR 0xE2, CHR 0x80, CHR 0xA8], [CHR 0xE2, CHR 0x80, CHR 0xA9],
      [CHR 0xE2, CHR 0x80, CHR 0xAF],
      [CHR 0xE2, CHR 0x81, CHR 0x9F],
      [CHR 0xE3, CHR 0x80, CHR 0x80]]"

text \<open>
  The width in bytes of the white-space rune that a string starts with, and of the one it
  ends with; 0 when there is none. Go decodes the first rune (and, from the end, the
  last one) and asks \<^verbatim>\<open>unicode.IsSpace\<close>. Its decoder reads the length of a rune off the
  first byte and gives U+FFFD, which is no white space, for every byte sequence that is
  not the one encoding of a rune; from the end it goes back to the nearest byte that can
  start a rune. So the first (last) rune is white space exactly when the string starts
  (ends) with one of the encodings of \<open>space_runes\<close>.
\<close>

definition leading_space :: "string \<Rightarrow> nat" where
  "leading_space s =
     (case filter (\<lambda>enc. take (length enc) s = enc) space_runes of
        [] \<Rightarrow> 0 | enc # _ \<Rightarrow> length enc)"

definition trailing_space :: "string \<Rightarrow> nat" where
  "trailing_space s =
     (case filter (\<lambda>enc. length enc \<le> length s \<and> drop (length s - length enc) s = enc)
             space_runes of
        [] \<Rightarrow> 0 | enc # _ \<Rightarrow> length enc)"

text \<open>\<^verbatim>\<open>strings.TrimLeftFunc(s, unicode.IsSpace)\<close>: white-space runes are dropped from the front.\<close>

function TrimLeftSpace :: "string \<Rightarrow> string" where
  "TrimLeftSpace s =
     (if leading_space s = 0 then s else TrimLeftSpace (drop (leading_space s) s))"
  by pat_completeness auto
termination
proof (relation "measure length")
  show "wf (measure length)" by simp
next
  fix s :: string
  assume "leading_space s \<noteq> 0"
  then obtain enc rest where
    f: "filter (\<lambda>enc. take (length enc) s = enc) space_runes = enc # rest"
    by (auto simp add: leading_space_def split: list.splits)
  then have "enc \<in> set (filter (\<lambda>enc. take (length enc) s = enc) space_runes)" by simp
  then have m: "enc \<in> set space_runes" and t: "take (length enc) s = enc" by simp_all
  from m have "0 < length enc" by (auto simp add: space_runes_def)
  moreover have "length (take (length enc) s) = length enc" using t by simp
  then have "length enc \<le> length s" by simp
  moreover have "leading_space s = length enc" using f by (simp add: leading_space_def)
  ultimately have "length s - leading_space s < length s" by arith
  then show "(drop (leading_space s) s, s) \<in> measure length" by simp
qed

text \<open>\<^verbatim>\<open>strings.TrimRightFunc(s, unicode.IsSpace)\<close>: white-space runes are dropped from the end.\<close>

function TrimRightSpace :: "string \<Rightarrow> string" where
  "TrimRightSpace s =
     (if trailing_space s = 0 then s else TrimRightSpace (take (length s - trailing_space s) s))"
  by pat_completeness auto
termination
proof (relation "measure length")
  show "wf (measure length)" by simp
next
  fix s :: string
  assume "trailing_space s \<noteq> 0"
  then obtain enc rest where
    f: "filter (\<lambda>enc. length enc \<le> length s \<and> drop (length s - length enc) s = enc) space_runes
          = enc # rest"
    by (auto simp add: trailing_space_def split: list.splits)
  then have "enc \<in> set (filter (\<lambda>enc. length enc \<le> length s \<and>
      drop (length s - length enc) s = enc) space_runes)" by simp
  then have m: "enc \<in> set space_runes" and t: "length enc \<le> length s" by simp_all
  from m have "0 < length enc" by (auto simp add: space_runes_def)
  moreover have "trailing_space s = length enc" using f by (simp add: trailing_space_def)
  ultimately have "length s - trailing_space s < length s" using t by arith
  then show "(take (length s - trailing_space s) s, s) \<in> measure length" by simp
qed

declare TrimLeftSpace.simps [simp del]

declare TrimRightSpace.simps [simp del]

text \<open>
  \<^verbatim>\<open>strings.TrimSpace\<close>. (Go first skips ASCII white space byte by byte and falls back on
  the two functions above at the first byte that is not ASCII; the result is the same.)
\<close>

definition TrimSpace :: "string \<Rightarrow> string" where
  "TrimSpace s = TrimRightSpace (TrimLeftSpace s)"

subsection \<open>Errors, configuration and collaborators\<close>

text \<open>
  Errors are values. \<open>ExternalError\<close> is an error made by a collaborator (DNS, the TLS
  files, the etcd library); the two \<open>CouldNot\<close> constructors are the \<^verbatim>\<open>fmt.Errorf\<close>
  wrappers of \<^verbatim>\<open>load\<close>, which keep the wrapped error (\<^verbatim>\<open>%w\<close>); \<open>ErrorsNew\<close> is
  \<^verbatim>\<open>errors.New\<close>.
\<close>

datatype error =
    ExternalError string
  | DeadlineExceeded
  | CouldNotDiscover string error
  | CouldNotSetupTLS error
  | ErrorsNew string

text \<open>A call through a nil \<^verbatim>\<open>*clientv3.Client\<close> does not return: the goroutine panics.\<close>

datatype panic = NilPointerDereference

text \<open>
  \<^verbatim>\<open>goconf.ConfigFile\<close>, as far as \<^verbatim>\<open>GetString(section, option)\<close> shows it: a value for some
  pairs of section and option. For a missing pair \<^verbatim>\<open>GetString\<close> returns the empty string
  and an error, which \<^verbatim>\<open>getConfigStringWithFallback\<close> drops.
\<close>

type_synonym ConfigFile = "string \<times> string \<rightharpoonup> string"

definition GetString :: "ConfigFile \<Rightarrow> string \<Rightarrow> string \<Rightarrow> string \<times> bool" where
  "GetString config sect option =
     (case config (sect, option) of None \<Rightarrow> ('''', False) | Some v \<Rightarrow> (v, True))"

record TLSInfo =
  CertFile :: string
  KeyFile :: string
  TrustedCAFile :: string

text \<open>A \<^verbatim>\<open>*tls.Config\<close> is opaque to this code: a token.\<close>

datatype tls_Config = TLSConfig nat

text \<open>\<^verbatim>\<open>time.Duration\<close> is a signed 64-bit count of nanoseconds.\<close>

type_synonym Duration = int

definition Second :: Duration where
  "Second = 1000000000"

definition wrap64 :: "int \<Rightarrow> int" where
  "wrap64 x = (x + 2 ^ 63) mod 2 ^ 64 - 2 ^ 63"

record Config =
  Endpoints :: "string list"
  DialTimeout :: Duration
  TLS :: "tls_Config option"

text \<open>
  A \<^verbatim>\<open>*clientv3.Client\<close> is known by the configuration it was created from.
\<close>

datatype Client = NewClient (client_cfg: Config)

type_synonym listener = nat

type_synonym Context = nat

type_synonym OpOption = nat

text \<open>A watch event: \<^verbatim>\<open>ev.Type\<close> (an int32), \<^verbatim>\<open>ev.Kv.Key\<close> and \<^verbatim>\<open>ev.Kv.Value\<close>.\<close>

record Event =
  Type :: int
  Key :: string
  Val :: string

definition EventTypePut :: int where
  "EventTypePut = 0"

definition EventTypeDelete :: int where
  "EventTypeDelete = 1"

text \<open>A watch response: its events and what its method \<^verbatim>\<open>Err()\<close> returns.\<close>

record WatchResponse =
  Events :: "Event list"
  Err :: "error option"

text \<open>
  The collaborators, by their answers: the DNS SRV lookup \<^verbatim>\<open>srv.GetClient\<close>, the reading of
  the TLS files \<^verbatim>\<open>tlsInfo.ClientConfig\<close>, \<^verbatim>\<open>clientv3.New\<close> (\<open>None\<close>: the client is
  created), the answer of the \<open>n\<close>-th call of \<^verbatim>\<open>Sync\<close>, the error of \<^verbatim>\<open>client.Close()\<close>,
  the endpoints that \<^verbatim>\<open>client.Endpoints()\<close> returns after a successful \<^verbatim>\<open>Sync\<close>, the answer of \<^verbatim>\<open>Get\<close>, and the responses that the channel of \<^verbatim>\<open>Watch\<close> delivers
  until it is closed.
\<close>

record env =
  srv_GetClient :: "string \<Rightarrow> string \<Rightarrow> string \<Rightarrow> error + string list"
  tls_ClientConfig :: "TLSInfo \<Rightarrow> error + tls_Config"
  clientv3_New :: "Config \<Rightarrow> error option"
  client_Sync :: "nat \<Rightarrow> error option"
  client_Close :: "Client \<Rightarrow> error option"
  client_Endpoints :: "Client \<Rightarrow> string list"
  client_Get :: "Client \<Rightarrow> Context \<Rightarrow> string \<Rightarrow> OpOption list \<Rightarrow> error + (string \<times> string) list"
  client_Watch :: "Client \<Rightarrow> Context \<Rightarrow> string \<Rightarrow> OpOption list \<Rightarrow> WatchResponse list"

subsection \<open>Effects\<close>

datatype logmsg =
    LogDeprecated string string
  | LogNoEndpoints
  | LogTLSDisabled error
  | LogCouldNotCreate "string list" error
  | LogUsingEndpoints "string list"
  | LogSyncTimeout Duration
  | LogSyncFailed Duration error
  | LogSynced "string list"
  | LogWaitLeader string
  | LogWatchCreated string
  | LogUnsupported int string string

datatype watcher_call =
    EtcdWatchCreated string
  | EtcdKeyUpdated string string
  | EtcdKeyDeleted string

text \<open>
  \<open>Call l\<close> is the statement \<^verbatim>\<open>listener.EtcdClientCreated(c)\<close>, which runs the listener
  in the calling goroutine and returns when the listener returns; \<open>Go l\<close> is
  \<^verbatim>\<open>go listener.EtcdClientCreated(c)\<close>, which starts a goroutine for the listener and
  goes on at once. \<open>MuLock\<close> and \<open>MuUnlock\<close> are \<^verbatim>\<open>c.mu.Lock()\<close> and \<^verbatim>\<open>c.mu.Unlock()\<close>.
\<close>

datatype event =
    Log logmsg
  | SrvGetClient string string string
  | TLSClientConfig TLSInfo
  | ClientNew Config
  | ClientClose Client
  | ClientStore Client
  | MuLock
  | MuUnlock
  | Call listener
  | Go listener
  | ClientSync Client
  | Sleep Duration
  | ClientWatch Client string
  | Watcher watcher_call

subsection \<open>The client object\<close>

text \<open>
  \<open>client\<close> is the \<^verbatim>\<open>atomic.Value\<close> (\<open>None\<close>: nothing stored yet). \<open>listeners\<close> is the
  key set of \<^verbatim>\<open>map[EtcdClientListener]bool\<close>, in the order in which \<^verbatim>\<open>range\<close> visits it
  (Go leaves that order open); a nil map is the empty one, as it reads like it.
\<close>

record EtcdClient =
  compatSection :: string
  client :: "Client option"
  listeners :: "listener dlist"

definition getConfigStringWithFallback ::
    "EtcdClient \<Rightarrow> ConfigFile \<Rightarrow> string \<Rightarrow> string \<times> event list" where
  "getConfigStringWithFallback c config option =
     (let v = fst (GetString config ''etcd'' option) in
      if v = '''' \<and> compatSection c \<noteq> '''' then
        (let v = fst (GetString config (compatSection c) option) in
         if v \<noteq> '''' then (v, [Log (LogDeprecated option (compatSection c))]) else (v, []))
      else (v, []))"

definition getEtcdClient :: "EtcdClient \<Rightarrow> Client option" where
  "getEtcdClient c = client c"

definition IsConfigured :: "EtcdClient \<Rightarrow> bool" where
  "IsConfigured c \<longleftrightarrow> getEtcdClient c \<noteq> None"

text \<open>
  \<^verbatim>\<open>Close\<close> returns the error of \<^verbatim>\<open>client.Close()\<close>, and nil when there is no client.
  (\<^verbatim>\<open>load\<close> drops the error when it closes the previous client.)
\<close>

definition Close :: "env \<Rightarrow> EtcdClient \<Rightarrow> (panic + error option) \<times> event list" where
  "Close e c =
     (case getEtcdClient c of
        Some cl \<Rightarrow> (Inr (client_Close e cl), [ClientClose cl])
      | None \<Rightarrow> (Inr None, []))"

definition notifyListeners :: "EtcdClient \<Rightarrow> event list" where
  "notifyListeners c = [MuLock] @ map Call (list_of_dlist (listeners c)) @ [MuUnlock]"

definition AddListener :: "EtcdClient \<Rightarrow> listener \<Rightarrow> EtcdClient \<times> event list" where
  "AddListener c l =
     (let c' = c\<lparr>listeners := Dlist.insert l (listeners c)\<rparr> in
      (c', [MuLock] @ (case getEtcdClient c' of Some cl \<Rightarrow> [Go l] | None \<Rightarrow> []) @ [MuUnlock]))"

definition RemoveListener :: "EtcdClient \<Rightarrow> listener \<Rightarrow> EtcdClient \<times> event list" where
  "RemoveListener c l = (c\<lparr>listeners := Dlist.remove l (listeners c)\<rparr>, [MuLock, MuUnlock])"

subsection \<open>load\<close>

text \<open>The loop over the pieces of the endpoint string (lines 83 to 88).\<close>

fun appendEndpoints :: "string list \<Rightarrow> string list \<Rightarrow> string list" where
  "appendEndpoints endpoints [] = endpoints"
| "appendEndpoints endpoints (ep # rest) =
     (let ep = TrimSpace ep in
      if ep \<noteq> '''' then appendEndpoints (endpoints @ [ep]) rest
      else appendEndpoints endpoints rest)"

text \<open>
  Lines 81 to 99: the endpoints, or the error that \<^verbatim>\<open>load\<close> returns from there.
\<close>

definition load_endpoints ::
    "env \<Rightarrow> EtcdClient \<Rightarrow> ConfigFile \<Rightarrow> bool \<Rightarrow> (error + string list) \<times> event list" where
  "load_endpoints e c config ignoreErrors =
     (case getConfigStringWithFallback c config ''endpoints'' of (endpointsString, t1) \<Rightarrow>
      if endpointsString \<noteq> '''' then
        (Inr (appendEndpoints [] (Split endpointsString CHR '','')), t1)
      else
        (case getConfigStringWithFallback c config ''discoverysrv'' of (discoverySrv, t2) \<Rightarrow>
         if discoverySrv \<noteq> '''' then
           (case getConfigStringWithFallback c config ''discoveryservice'' of
              (discoveryService, t3) \<Rightarrow>
                (case srv_GetClient e ''etcd-client'' discoverySrv discoveryService of
                   Inl err \<Rightarrow>
                     (if \<not> ignoreErrors then Inl (CouldNotDiscover discoverySrv err) else Inr [],
                      t1 @ t2 @ t3 @ [SrvGetClient ''etcd-client'' discoverySrv discoveryService])
                 | Inr clients \<Rightarrow>
                     (Inr clients,
                      t1 @ t2 @ t3 @ [SrvGetClient ''etcd-client'' discoverySrv discoveryService])))
         else (Inr [], t1 @ t2)))"

text \<open>Lines 115 to 134: the value of \<^verbatim>\<open>cfg.TLS\<close>, or the error returned from there.\<close>

definition load_tls ::
    "env \<Rightarrow> EtcdClient \<Rightarrow> ConfigFile \<Rightarrow> bool \<Rightarrow> (error + tls_Config option) \<times> event list" where
  "load_tls e c config ignoreErrors =
     (case getConfigStringWithFallback c config ''clientkey'' of (clientKey, t1) \<Rightarrow>
      case getConfigStringWithFallback c config ''clientcert'' of (clientCert, t2) \<Rightarrow>
      case getConfigStringWithFallback c config ''cacert'' of (caCert, t3) \<Rightarrow>
      if clientKey \<noteq> '''' \<and> clientCert \<noteq> '''' \<and> caCert \<noteq> '''' then
        (let tlsInfo = \<lparr>CertFile = clientCert, KeyFile = clientKey, TrustedCAFile = caCert\<rparr> in
         case tls_ClientConfig e tlsInfo of
           Inl err \<Rightarrow>
             if \<not> ignoreErrors then
               (Inl (CouldNotSetupTLS err), t1 @ t2 @ t3 @ [TLSClientConfig tlsInfo])
             else
               (Inr None, t1 @ t2 @ t3 @ [TLSClientConfig tlsInfo, Log (LogTLSDisabled err)])
         | Inr tlsConfig \<Rightarrow> (Inr (Some tlsConfig), t1 @ t2 @ t3 @ [TLSClientConfig tlsInfo]))
      else (Inr None, t1 @ t2 @ t3))"

text \<open>Lines 144 to 150: the new client takes the place of the previous one.\<close>

definition load_install :: "EtcdClient \<Rightarrow> Client \<Rightarrow> string list \<Rightarrow> EtcdClient \<times> event list" where
  "load_install c new endpoints =
     (let prev = getEtcdClient c;
          t1 = (case prev of Some p \<Rightarrow> [ClientClose p] | None \<Rightarrow> []);
          c' = c\<lparr>client := Some new\<rparr>
      in (c', t1 @ [ClientStore new, Log (LogUsingEndpoints endpoints)] @ notifyListeners c'))"

definition load ::
    "env \<Rightarrow> EtcdClient \<Rightarrow> ConfigFile \<Rightarrow> bool \<Rightarrow> error option \<times> EtcdClient \<times> event list" where
  "load e c config ignoreErrors =
     (case load_endpoints e c config ignoreErrors of
        (Inl err, t) \<Rightarrow> (Some err, c, t)
      | (Inr endpoints, t) \<Rightarrow>
          if length endpoints = 0 then
            (if \<not> ignoreErrors then (None, c, t) else (None, c, t @ [Log LogNoEndpoints]))
          else
            (case load_tls e c config ignoreErrors of
               (Inl err, t') \<Rightarrow> (Some err, c, t @ t')
             | (Inr tls, t') \<Rightarrow>
                 (let cfg = \<lparr>Endpoints = endpoints, DialTimeout = Second, TLS = tls\<rparr> in
                  case clientv3_New e cfg of
                    Some err \<Rightarrow>
                      if \<not> ignoreErrors then (Some err, c, t @ t' @ [ClientNew cfg])
                      else (None, c,
                            t @ t' @ [ClientNew cfg, Log (LogCouldNotCreate endpoints err)])
                  | None \<Rightarrow>
                      (case load_install c (NewClient cfg) endpoints of
                         (c', t'') \<Rightarrow> (None, c', t @ t' @ [ClientNew cfg] @ t'')))))"

definition NewEtcdClient ::
    "env \<Rightarrow> ConfigFile \<Rightarrow> string \<Rightarrow> (error + EtcdClient) \<times> event list" where
  "NewEtcdClient e config section =
     (let result = \<lparr>compatSection = section, client = None, listeners = Dlist.empty\<rparr> in
      case load e result config False of
        (Some err, c', t) \<Rightarrow> (Inl err, t)
      | (None, c', t) \<Rightarrow> (Inr c', t))"

subsection \<open>Connection readiness\<close>

text \<open>
  \<^verbatim>\<open>syncClient\<close>, at the \<open>n\<close>-th call of \<^verbatim>\<open>Sync\<close>. Through a nil client the call panics.
\<close>

definition syncClient :: "env \<Rightarrow> EtcdClient \<Rightarrow> nat \<Rightarrow> (panic + error option) \<times> event list" where
  "syncClient e c n =
     (case getEtcdClient c of
        None \<Rightarrow> (Inl NilPointerDereference, [])
      | Some cl \<Rightarrow> (Inr (client_Sync e n), [ClientSync cl]))"

text \<open>
  The loop of \<^verbatim>\<open>WaitForConnection\<close>. It has no bound, so it is a partial function: \<open>None\<close>
  is the run that never returns. \<^verbatim>\<open>initialWaitDelay\<close> and \<^verbatim>\<open>maxWaitDelay\<close> are constants
  of the package declared in another file; here they are parameters. The product
  \<^verbatim>\<open>waitDelay * 2\<close> wraps around as int64 does.
\<close>

partial_function (option) WaitForConnection_loop ::
    "env \<Rightarrow> Duration \<Rightarrow> EtcdClient \<Rightarrow> nat \<Rightarrow> Duration \<Rightarrow> event list
      \<Rightarrow> ((panic + unit) \<times> event list) option" where
  "WaitForConnection_loop e maxWaitDelay c n waitDelay tr =
     (case syncClient e c n of
        (Inl p, t) \<Rightarrow> Some (Inl p, tr @ t)
      | (Inr (Some err), t) \<Rightarrow>
          WaitForConnection_loop e maxWaitDelay c (Suc n)
            (let d = wrap64 (waitDelay * 2) in if d > maxWaitDelay then maxWaitDelay else d)
            (tr @ t @
               [Log (if err = DeadlineExceeded then LogSyncTimeout waitDelay
                     else LogSyncFailed waitDelay err),
                Sleep waitDelay])
      | (Inr None, t) \<Rightarrow>
          (case getEtcdClient c of
             None \<Rightarrow> Some (Inl NilPointerDereference, tr @ t)
           | Some cl \<Rightarrow> Some (Inr (), tr @ t @ [Log (LogSynced (client_Endpoints e cl))])))"

declare WaitForConnection_loop.simps [code]

definition WaitForConnection ::
    "env \<Rightarrow> Duration \<Rightarrow> Duration \<Rightarrow> EtcdClient \<Rightarrow> ((panic + unit) \<times> event list) option" where
  "WaitForConnection e initialWaitDelay maxWaitDelay c =
     WaitForConnection_loop e maxWaitDelay c 0 initialWaitDelay []"

subsection \<open>Get and Watch\<close>

definition Get ::
    "env \<Rightarrow> EtcdClient \<Rightarrow> Context \<Rightarrow> string \<Rightarrow> OpOption list
      \<Rightarrow> panic + (error + (string \<times> string) list)" where
  "Get e c ctx key opts =
     (case getEtcdClient c of
        None \<Rightarrow> Inl NilPointerDereference
      | Some cl \<Rightarrow> Inr (client_Get e cl ctx key opts))"

text \<open>The loop over the events of one response (lines 252 to 261).\<close>

fun dispatch :: "Event list \<Rightarrow> event list" where
  "dispatch [] = []"
| "dispatch (ev # evs) =
     (if Type ev = EventTypePut then [Watcher (EtcdKeyUpdated (Key ev) (Val ev))]
      else if Type ev = EventTypeDelete then [Watcher (EtcdKeyDeleted (Key ev))]
      else [Log (LogUnsupported (Type ev) (Key ev) (Val ev))]) @ dispatch evs"

text \<open>
  The loop over the channel (lines 247 to 264); the list holds the responses received
  until the channel is closed.
\<close>

fun Watch_loop :: "WatchResponse list \<Rightarrow> error option \<times> event list" where
  "Watch_loop [] = (None, [])"
| "Watch_loop (response # ch) =
     (case Err response of
        Some err \<Rightarrow> (Some err, [])
      | None \<Rightarrow> (case Watch_loop ch of (r, t) \<Rightarrow> (r, dispatch (Events response) @ t)))"

definition Watch ::
    "env \<Rightarrow> EtcdClient \<Rightarrow> Context \<Rightarrow> string \<Rightarrow> OpOption list
      \<Rightarrow> (panic + error option) \<times> event list" where
  "Watch e c ctx key opts =
     (case getEtcdClient c of
        None \<Rightarrow> (Inl NilPointerDereference, [Log (LogWaitLeader key)])
      | Some cl \<Rightarrow>
          (case Watch_loop (client_Watch e cl ctx key opts) of
             (r, t) \<Rightarrow>
               (Inr r,
                [Log (LogWaitLeader key), ClientWatch cl key, Log (LogWatchCreated key),
                 Watcher (EtcdWatchCreated key)] @ t)))"

subsection \<open>Reloadable credentials\<close>

text \<open>
  \<^verbatim>\<open>reloadableCredentials\<close> is declared in another file; the two functions read its fields
  \<^verbatim>\<open>loader\<close> and \<^verbatim>\<open>pool\<close>, either of which may be nil. The method \<^verbatim>\<open>WaitForReload\<close> of the
  loaders is not in these files: it is the parameter \<open>WaitForReload\<close>, by what it returns.
\<close>

record ('l, 'p) reloadableCredentials =
  loader :: "'l option"
  pool :: "'p option"

definition WaitForCertificateReload ::
    "('l \<Rightarrow> Context \<Rightarrow> error option) \<Rightarrow> ('l, 'p) reloadableCredentials \<Rightarrow> Context
      \<Rightarrow> error option" where
  "WaitForCertificateReload WaitForReload c ctx =
     (case loader c of
        None \<Rightarrow> Some (ErrorsNew ''no certificate loaded'')
      | Some l \<Rightarrow> WaitForReload l ctx)"

definition WaitForCertPoolReload ::
    "('p \<Rightarrow> Context \<Rightarrow> error option) \<Rightarrow> ('l, 'p) reloadableCredentials \<Rightarrow> Context
      \<Rightarrow> error option" where
  "WaitForCertPoolReload WaitForReload c ctx =
     (case pool c of
        None \<Rightarrow> Some (ErrorsNew ''no certificate pool loaded'')
      | Some p \<Rightarrow> WaitForReload p ctx)"

subsection \<open>Reading a list of effects\<close>

fun watcher_calls :: "event list \<Rightarrow> watcher_call list" where
  "watcher_calls [] = []"
| "watcher_calls (Watcher w # t) = w # watcher_calls t"
| "watcher_calls (_ # t) = watcher_calls t"

fun sleeps :: "event list \<Rightarrow> Duration list" where
  "sleeps [] = []"
| "sleeps (Sleep d # t) = d # sleeps t"
| "sleeps (_ # t) = sleeps t"

text \<open>The effects on client handles: closing one and storing one in the slot.\<close>

fun handle_events :: "event list \<Rightarrow> event list" where
  "handle_events [] = []"
| "handle_events (ClientClose cl # t) = ClientClose cl # handle_events t"
| "handle_events (ClientStore cl # t) = ClientStore cl # handle_events t"
| "handle_events (_ # t) = handle_events t"

text \<open>\<open>only_after a b t\<close>: every \<open>a\<close> in \<open>t\<close> has a \<open>b\<close> somewhere before it.\<close>

fun only_after :: "'a \<Rightarrow> 'a \<Rightarrow> 'a list \<Rightarrow> bool" where
  "only_after a b [] = True"
| "only_after a b (x # t) = (if x = b then True else if x = a then False else only_after a b t)"

section \<open>Vocabulary of the statements\<close>

text \<open>
  Readings of a run of \<^verbatim>\<open>load\<close> and of its inputs, in which the properties are stated:
  the value of an option as \<^verbatim>\<open>getConfigStringWithFallback\<close> returns it, the projections
  of a list of effects, the endpoints and the TLS configuration that \<^verbatim>\<open>load\<close> arrives at,
  and the three ways in which a collaborator can fail it.
\<close>


text \<open>The value of an option, as \<^verbatim>\<open>load\<close> reads it.\<close>

definition option_value :: "EtcdClient \<Rightarrow> ConfigFile \<Rightarrow> string \<Rightarrow> string" where
  "option_value c config name = fst (getConfigStringWithFallback c config name)"

text \<open>
  Projections of a list of effects: the SRV lookups and the configurations given to
  \<^verbatim>\<open>clientv3.New\<close>.
\<close>

fun srv_lookups :: "event list \<Rightarrow> event list" where
  "srv_lookups [] = []"
| "srv_lookups (SrvGetClient a b d # t) = SrvGetClient a b d # srv_lookups t"
| "srv_lookups (_ # t) = srv_lookups t"

fun client_creations :: "event list \<Rightarrow> Config list" where
  "client_creations [] = []"
| "client_creations (ClientNew cfg # t) = cfg # client_creations t"
| "client_creations (_ # t) = client_creations t"

text \<open>
  The \<^verbatim>\<open>transport.TLSInfo\<close> that \<^verbatim>\<open>load\<close> builds, the condition under which it builds
  one (line 118), and the deprecation warnings of the three lookups before it.
\<close>

definition tls_info :: "EtcdClient \<Rightarrow> ConfigFile \<Rightarrow> TLSInfo" where
  "tls_info c config =
     \<lparr>CertFile = option_value c config ''clientcert'', KeyFile = option_value c config ''clientkey'',
      TrustedCAFile = option_value c config ''cacert''\<rparr>"

definition tls_specified :: "EtcdClient \<Rightarrow> ConfigFile \<Rightarrow> bool" where
  "tls_specified c config \<longleftrightarrow>
     option_value c config ''clientkey'' \<noteq> '''' \<and> option_value c config ''clientcert'' \<noteq> '''' \<and>
     option_value c config ''cacert'' \<noteq> ''''"

definition tls_options_log :: "EtcdClient \<Rightarrow> ConfigFile \<Rightarrow> event list" where
  "tls_options_log c config = snd (getConfigStringWithFallback c config ''clientkey'') @
     snd (getConfigStringWithFallback c config ''clientcert'') @ snd (getConfigStringWithFallback c config ''cacert'')"

text \<open>The \<^verbatim>\<open>clientv3.Config\<close> of lines 108 to 113, with its \<^verbatim>\<open>TLS\<close> field.\<close>

definition new_config :: "string list \<Rightarrow> tls_Config option \<Rightarrow> Config" where
  "new_config eps tls = \<lparr>Endpoints = eps, DialTimeout = Second, TLS = tls\<rparr>"

text \<open>The errors that the log lines of a list of effects report.\<close>

fun logged_errors :: "event list \<Rightarrow> error list" where
  "logged_errors [] = []"
| "logged_errors (Log (LogTLSDisabled err) # t) = err # logged_errors t"
| "logged_errors (Log (LogCouldNotCreate eps err) # t) = err # logged_errors t"
| "logged_errors (Log (LogSyncFailed d err) # t) = err # logged_errors t"
| "logged_errors (_ # t) = logged_errors t"

text \<open>
  The listeners called in the calling goroutine, and the listeners started with a
  \<^verbatim>\<open>go\<close> statement.
\<close>

fun calls :: "event list \<Rightarrow> listener list" where
  "calls [] = []"
| "calls (Call l # t) = l # calls t"
| "calls (_ # t) = calls t"

fun spawns :: "event list \<Rightarrow> listener list" where
  "spawns [] = []"
| "spawns (Go l # t) = l # spawns t"
| "spawns (_ # t) = spawns t"

text \<open>
  The listeners called while \<^verbatim>\<open>c.mu\<close> is held; the flag says whether it is held before
  the first effect of the list.
\<close>

fun calls_under_lock :: "bool \<Rightarrow> event list \<Rightarrow> listener list" where
  "calls_under_lock held [] = []"
| "calls_under_lock held (MuLock # t) = calls_under_lock True t"
| "calls_under_lock held (MuUnlock # t) = calls_under_lock False t"
| "calls_under_lock held (Call l # t) = (if held then l # calls_under_lock held t else calls_under_lock held t)"
| "calls_under_lock held (_ # t) = calls_under_lock held t"

text \<open>
  A list of effects is quiet when it closes and stores no client, creates none and
  notifies no listener.
\<close>

definition quiet :: "event list \<Rightarrow> bool" where
  "quiet t \<longleftrightarrow> handle_events t = [] \<and> client_creations t = [] \<and> calls t = [] \<and> spawns t = []"

text \<open>
  The endpoint list that \<^verbatim>\<open>load\<close> arrives at (empty when the lookup fails), and the
  value of \<^verbatim>\<open>cfg.TLS\<close> when \<^verbatim>\<open>load\<close> gets as far as creating a client.
\<close>

definition endpoints_of :: "env \<Rightarrow> EtcdClient \<Rightarrow> ConfigFile \<Rightarrow> string list" where
  "endpoints_of e c config =
     (case fst (load_endpoints e c config True) of Inr eps \<Rightarrow> eps | Inl err \<Rightarrow> [])"

definition tls_of :: "env \<Rightarrow> EtcdClient \<Rightarrow> ConfigFile \<Rightarrow> tls_Config option" where
  "tls_of e c config =
     (if tls_specified c config then
        (case tls_ClientConfig e (tls_info c config) of Inr tc \<Rightarrow> Some tc | Inl err \<Rightarrow> None)
      else None)"

text \<open>
  The three failures of a collaborator: the SRV lookup is made and fails, the TLS
  configuration is built and fails, the client is created and fails.
\<close>

definition discovery_fails :: "env \<Rightarrow> EtcdClient \<Rightarrow> ConfigFile \<Rightarrow> error \<Rightarrow> bool" where
  "discovery_fails e c config err \<longleftrightarrow>
     option_value c config ''endpoints'' = '''' \<and> option_value c config ''discoverysrv'' \<noteq> '''' \<and>
     srv_GetClient e ''etcd-client'' (option_value c config ''discoverysrv'')
       (option_value c config ''discoveryservice'') = Inl err"

definition tls_fails :: "env \<Rightarrow> EtcdClient \<Rightarrow> ConfigFile \<Rightarrow> error \<Rightarrow> bool" where
  "tls_fails e c config err \<longleftrightarrow>
     endpoints_of e c config \<noteq> [] \<and> tls_specified c config \<and>
     tls_ClientConfig e (tls_info c config) = Inl err"

definition creation_fails :: "env \<Rightarrow> EtcdClient \<Rightarrow> ConfigFile \<Rightarrow> error \<Rightarrow> bool" where
  "creation_fails e c config err \<longleftrightarrow>
     endpoints_of e c config \<noteq> [] \<and>
     clientv3_New e (new_config (endpoints_of e c config) (tls_of e c config)) = Some err"

text \<open>The state and the effects of a run of \<^verbatim>\<open>load\<close>.\<close>

definition run_state :: "error option \<times> EtcdClient \<times> event list \<Rightarrow> EtcdClient" where
  "run_state r = fst (snd r)"

definition run_trace :: "error option \<times> EtcdClient \<times> event list \<Rightarrow> event list" where
  "run_trace r = snd (snd r)"

text \<open>
  What the specification says the watcher receives for one event of the stream: a Put
  gives the update hook key and value, a Delete gives the delete hook the key, any other
  type gives nothing. This definition follows the words of the specification, not the
  code; the code is \<open>dispatch\<close>.
\<close>

definition relay_spec :: "Event \<Rightarrow> watcher_call list" where
  "relay_spec ev =
     (if Type ev = EventTypePut then [EtcdKeyUpdated (Key ev) (Val ev)]
      else if Type ev = EventTypeDelete then [EtcdKeyDeleted (Key ev)]
      else [])"

text \<open>
  The delays the specification gives for \<open>N\<close> failed attempts: a doubling sequence
  that starts at the initial delay and is capped at the maximum. It follows the words of
  the specification; the code is \<open>WaitForConnection_loop\<close>.
\<close>

definition backoff_spec :: "Duration \<Rightarrow> Duration \<Rightarrow> nat \<Rightarrow> Duration list" where
  "backoff_spec initial maxd N = map (\<lambda>i. min (initial * 2 ^ i) maxd) [0..<N]"

section \<open>Example inputs\<close>

text \<open>
  Collaborators that answer the same to every call, given the answers of the SRV lookup,
  of the TLS files and of \<^verbatim>\<open>clientv3.New\<close>. \<^verbatim>\<open>Sync\<close> times out twice, fails three more
  times and then succeeds; the watch channel delivers two good responses, one with an
  error and one more.
\<close>

definition ex_env :: "(error + string list) \<Rightarrow> (error + tls_Config) \<Rightarrow> error option \<Rightarrow> env" where
  "ex_env srv tls new =
     \<lparr>srv_GetClient = (\<lambda>service domain name. srv),
      tls_ClientConfig = (\<lambda>info. tls),
      clientv3_New = (\<lambda>cfg. new),
      client_Sync = (\<lambda>n. if n < 2 then Some DeadlineExceeded
                          else if n < 5 then Some (ExternalError ''no leader'') else None),
      client_Close = (\<lambda>cl. None),
      client_Endpoints = (\<lambda>cl. [''10.0.0.1:2379'', ''10.0.0.2:2379'', ''10.0.0.3:2379'']),
      client_Get = (\<lambda>cl ctx key opts. Inr []),
      client_Watch = (\<lambda>cl ctx key opts.
        [\<lparr>Events = [\<lparr>Type = 0, Key = ''a'', Val = ''1''\<rparr>, \<lparr>Type = 7, Key = ''b'', Val = ''2''\<rparr>,
                     \<lparr>Type = 1, Key = ''a'', Val = ''''\<rparr>], Err = None\<rparr>,
         \<lparr>Events = [\<lparr>Type = 0, Key = ''c'', Val = ''3''\<rparr>], Err = None\<rparr>,
         \<lparr>Events = [\<lparr>Type = 0, Key = ''d'', Val = ''4''\<rparr>],
            Err = Some (ExternalError ''compacted'')\<rparr>,
         \<lparr>Events = [\<lparr>Type = 0, Key = ''e'', Val = ''5''\<rparr>], Err = None\<rparr>])\<rparr>"

definition ex_ok_env :: env where
  "ex_ok_env = ex_env (Inr [''10.0.0.3:2379'']) (Inr (TLSConfig 0)) None"

definition ex_no_srv_env :: env where
  "ex_no_srv_env = ex_env (Inl (ExternalError ''no such host'')) (Inr (TLSConfig 0)) None"

definition ex_no_tls_env :: env where
  "ex_no_tls_env = ex_env (Inr []) (Inl (ExternalError ''no such file'')) None"

definition ex_no_new_env :: env where
  "ex_no_new_env = ex_env (Inr []) (Inr (TLSConfig 0)) (Some (ExternalError ''bad endpoint''))"

definition ex_no_tls_no_new_env :: env where
  "ex_no_tls_no_new_env =
     ex_env (Inr []) (Inl (ExternalError ''no such file'')) (Some (ExternalError ''bad endpoint''))"

definition ex_down_env :: env where
  "ex_down_env = ex_ok_env\<lparr>client_Sync := (\<lambda>n. Some DeadlineExceeded)\<rparr>"

definition ex_config :: ConfigFile where
  "ex_config = [(''etcd'', ''endpoints'') \<mapsto> ''10.0.0.1:2379, 10.0.0.2:2379 ,,'']"

text \<open>
  An endpoint list with white space outside ASCII around its entries (a tab, U+00A0,
  U+3000, a space, U+2003), and one that is the rune U+00A0 and nothing else.
\<close>

definition ex_spaced_endpoints :: string where
  "ex_spaced_endpoints =
     [CHR 0x09] @ ''10.0.0.1:2379'' @ [CHR 0xC2, CHR 0xA0] @ '','' @
     [CHR 0xE3, CHR 0x80, CHR 0x80] @ '' 10.0.0.2:2379'' @ [CHR 0xE2, CHR 0x80, CHR 0x83] @
     '','' @ [CHR 0xC2, CHR 0xA0]"

definition ex_nbsp_endpoints :: string where
  "ex_nbsp_endpoints = [CHR 0xC2, CHR 0xA0]"

definition ex_spaced_config :: ConfigFile where
  "ex_spaced_config = [(''etcd'', ''endpoints'') \<mapsto> ex_spaced_endpoints]"

definition ex_nbsp_config :: ConfigFile where
  "ex_nbsp_config = [(''etcd'', ''endpoints'') \<mapsto> ex_nbsp_endpoints]"

definition ex_tls_config :: ConfigFile where
  "ex_tls_config =
     [(''etcd'', ''endpoints'') \<mapsto> ''10.0.0.1:2379'', (''etcd'', ''clientkey'') \<mapsto> ''client.key'',
      (''etcd'', ''clientcert'') \<mapsto> ''client.crt'', (''etcd'', ''cacert'') \<mapsto> ''ca.crt'']"

definition ex_srv_config :: ConfigFile where
  "ex_srv_config = [(''etcd'', ''discoverysrv'') \<mapsto> ''example.com'']"

definition ex_prev :: Client where
  "ex_prev = NewClient \<lparr>Endpoints = [''10.0.0.9:2379''], DialTimeout = Second, TLS = None\<rparr>"

definition ex_client :: EtcdClient where
  "ex_client = \<lparr>compatSection = '''', client = Some ex_prev,
                 listeners = Dlist.insert 1 (Dlist.insert 2 Dlist.empty)\<rparr>"

definition ex_fresh :: EtcdClient where
  "ex_fresh = \<lparr>compatSection = ''mcu'', client = None, listeners = Dlist.empty\<rparr>"

definition ex_WaitForReload :: "nat \<Rightarrow> Context \<Rightarrow> error option" where
  "ex_WaitForReload l ctx = (if ctx = 0 then Some DeadlineExceeded else None)"

definition ex_no_credentials :: "(nat, nat) reloadableCredentials" where
  "ex_no_credentials = \<lparr>loader = None, pool = None\<rparr>"

definition ex_credentials :: "(nat, nat) reloadableCredentials" where
  "ex_credentials = \<lparr>loader = Some 1, pool = Some 2\<rparr>"

definition ex_new :: Client where
  "ex_new = NewClient \<lparr>Endpoints = [''10.0.0.1:2379'', ''10.0.0.2:2379''], DialTimeout = Second,
                         TLS = None\<rparr>"

section \<open>Lemmas\<close>

subsection \<open>White space\<close>












subsection \<open>Projections and the effects of the parts of load\<close>

lemma handle_events_append: "handle_events (a @ b) = handle_events a @ handle_events b"
  by (induction a rule: handle_events.induct) simp_all

lemma srv_lookups_append: "srv_lookups (a @ b) = srv_lookups a @ srv_lookups b"
  by (induction a rule: srv_lookups.induct) simp_all

lemma client_creations_append: "client_creations (a @ b) = client_creations a @ client_creations b"
  by (induction a rule: client_creations.induct) simp_all

lemma getConfig_cases:
  "snd (getConfigStringWithFallback c config name) = [] \<or>
   snd (getConfigStringWithFallback c config name) = [Log (LogDeprecated name (compatSection c))]"
  by (simp add: getConfigStringWithFallback_def Let_def)

lemma getConfig_handle [simp]: "handle_events (snd (getConfigStringWithFallback c config name)) = []"
  using getConfig_cases [of c config name] by auto

lemma getConfig_srv [simp]: "srv_lookups (snd (getConfigStringWithFallback c config name)) = []"
  using getConfig_cases [of c config name] by auto

lemma getConfig_creations [simp]: "client_creations (snd (getConfigStringWithFallback c config name)) = []"
  using getConfig_cases [of c config name] by auto

lemma appendEndpoints_filter:
  "appendEndpoints acc pieces = acc @ filter (\<lambda>ep. ep \<noteq> '''') (map TrimSpace pieces)"
  by (induction pieces arbitrary: acc) (simp_all add: Let_def)

lemma load_endpoints_explicit:
  assumes "option_value c config ''endpoints'' \<noteq> ''''"
  shows "load_endpoints e c config ig =
     (Inr (filter (\<lambda>ep. ep \<noteq> '''') (map TrimSpace (Split (option_value c config ''endpoints'') CHR '',''))),
      snd (getConfigStringWithFallback c config ''endpoints''))"
  using assms by (simp add: load_endpoints_def option_value_def appendEndpoints_filter case_prod_beta)

lemma load_endpoints_srv:
  assumes "option_value c config ''endpoints'' = ''''" "option_value c config ''discoverysrv'' \<noteq> ''''"
  shows "load_endpoints e c config ig =
     ((case srv_GetClient e ''etcd-client'' (option_value c config ''discoverysrv'') (option_value c config ''discoveryservice'') of
         Inl err \<Rightarrow> if ig then Inr [] else Inl (CouldNotDiscover (option_value c config ''discoverysrv'') err)
       | Inr clients \<Rightarrow> Inr clients),
      snd (getConfigStringWithFallback c config ''endpoints'') @ snd (getConfigStringWithFallback c config ''discoverysrv'')
        @ snd (getConfigStringWithFallback c config ''discoveryservice'') @
        [SrvGetClient ''etcd-client'' (option_value c config ''discoverysrv'') (option_value c config ''discoveryservice'')])"
  using assms by (simp add: load_endpoints_def option_value_def case_prod_beta split: sum.splits)

lemma load_endpoints_none:
  assumes "option_value c config ''endpoints'' = ''''" "option_value c config ''discoverysrv'' = ''''"
  shows "load_endpoints e c config ig =
     (Inr [], snd (getConfigStringWithFallback c config ''endpoints'') @ snd (getConfigStringWithFallback c config ''discoverysrv''))"
  using assms by (simp add: load_endpoints_def option_value_def case_prod_beta split: sum.splits)

lemma load_endpoints_handle [simp]: "handle_events (snd (load_endpoints e c config ig)) = []"
  by (cases "option_value c config ''endpoints'' = ''''"; cases "option_value c config ''discoverysrv'' = ''''")
     (simp_all add: load_endpoints_explicit load_endpoints_srv load_endpoints_none handle_events_append)

lemma load_endpoints_creations [simp]: "client_creations (snd (load_endpoints e c config ig)) = []"
  by (cases "option_value c config ''endpoints'' = ''''"; cases "option_value c config ''discoverysrv'' = ''''")
     (simp_all add: load_endpoints_explicit load_endpoints_srv load_endpoints_none client_creations_append)

lemma load_tls_unspecified:
  "\<not> tls_specified c config \<Longrightarrow> load_tls e c config ig = (Inr None, tls_options_log c config)"
  by (auto simp add: load_tls_def tls_specified_def option_value_def tls_options_log_def case_prod_beta)

lemma load_tls_specified:
  "tls_specified c config \<Longrightarrow> load_tls e c config ig =
     (case tls_ClientConfig e (tls_info c config) of
        Inl err \<Rightarrow> if ig then (Inr None, tls_options_log c config @ [TLSClientConfig (tls_info c config), Log (LogTLSDisabled err)])
                   else (Inl (CouldNotSetupTLS err), tls_options_log c config @ [TLSClientConfig (tls_info c config)])
      | Inr tc \<Rightarrow> (Inr (Some tc), tls_options_log c config @ [TLSClientConfig (tls_info c config)]))"
  by (auto simp add: load_tls_def tls_specified_def option_value_def tls_options_log_def tls_info_def Let_def case_prod_beta split: sum.splits)

lemma load_tls_handle [simp]: "handle_events (snd (load_tls e c config ig)) = []"
  by (cases "tls_specified c config")
     (simp_all add: load_tls_unspecified load_tls_specified handle_events_append tls_options_log_def split: sum.splits)

lemma load_install_handle:
  "handle_events (snd (load_install c new eps)) =
     (case client c of Some prev \<Rightarrow> [ClientClose prev, ClientStore new] | None \<Rightarrow> [ClientStore new])"
proof -
  have "handle_events (map Call ls) = []" for ls by (induction ls) simp_all
  then show ?thesis
    by (simp add: load_install_def Let_def getEtcdClient_def notifyListeners_def handle_events_append split: option.splits)
qed

subsection \<open>The runs of load\<close>

lemma load_Inl:
  "load_endpoints e c config ig = (Inl err, te) \<Longrightarrow> load e c config ig = (Some err, c, te)"
  by (simp add: load_def)

lemma load_Nil:
  "load_endpoints e c config ig = (Inr [], te) \<Longrightarrow>
     load e c config ig = (None, c, te @ (if ig then [Log LogNoEndpoints] else []))"
  by (simp add: load_def)

lemma load_tls_Inl:
  "load_endpoints e c config ig = (Inr eps, te) \<Longrightarrow> eps \<noteq> [] \<Longrightarrow>
   load_tls e c config ig = (Inl err, tt) \<Longrightarrow> load e c config ig = (Some err, c, te @ tt)"
  by (simp add: load_def)

lemma load_New_fails:
  "load_endpoints e c config ig = (Inr eps, te) \<Longrightarrow> eps \<noteq> [] \<Longrightarrow>
   load_tls e c config ig = (Inr tls, tt) \<Longrightarrow> clientv3_New e (new_config eps tls) = Some err \<Longrightarrow>
   load e c config ig =
     (if ig then None else Some err, c,
      te @ tt @ [ClientNew (new_config eps tls)] @ (if ig then [Log (LogCouldNotCreate eps err)] else []))"
  by (simp add: load_def new_config_def)

lemma load_New_ok:
  "load_endpoints e c config ig = (Inr eps, te) \<Longrightarrow> eps \<noteq> [] \<Longrightarrow>
   load_tls e c config ig = (Inr tls, tt) \<Longrightarrow> clientv3_New e (new_config eps tls) = None \<Longrightarrow>
   load e c config ig =
     (None, c\<lparr>client := Some (NewClient (new_config eps tls))\<rparr>,
      te @ tt @ [ClientNew (new_config eps tls)] @ snd (load_install c (NewClient (new_config eps tls)) eps))"
  by (simp add: load_def new_config_def load_install_def Let_def)

lemma load_cases:
  obtains (err) err te where "load_endpoints e c config ig = (Inl err, te)"
  | (nil) te where "load_endpoints e c config ig = (Inr [], te)"
  | (tls) eps te err tt where "load_endpoints e c config ig = (Inr eps, te)" "eps \<noteq> []"
      "load_tls e c config ig = (Inl err, tt)"
  | (new_fails) eps te tls tt err where "load_endpoints e c config ig = (Inr eps, te)" "eps \<noteq> []"
      "load_tls e c config ig = (Inr tls, tt)" "clientv3_New e (new_config eps tls) = Some err"
  | (new_ok) eps te tls tt where "load_endpoints e c config ig = (Inr eps, te)" "eps \<noteq> []"
      "load_tls e c config ig = (Inr tls, tt)" "clientv3_New e (new_config eps tls) = None"
proof (cases "load_endpoints e c config ig")
  case (Pair re te)
  show ?thesis
  proof (cases re)
    case (Inl err)
    with Pair show ?thesis using err by simp
  next
    case (Inr eps)
    show ?thesis
    proof (cases "eps = []")
      case True
      with Pair Inr show ?thesis using nil by simp
    next
      case False
      obtain rt tt where lt: "load_tls e c config ig = (rt, tt)" by (cases "load_tls e c config ig")
      show ?thesis
      proof (cases rt)
        case (Inl err)
        with Pair Inr False lt show ?thesis using tls by simp
      next
        case r: (Inr tlsv)
        show ?thesis
        proof (cases "clientv3_New e (new_config eps tlsv)")
          case None
          with Pair Inr False lt r show ?thesis using new_ok by simp
        next
          case (Some err)
          with Pair Inr False lt r show ?thesis using new_fails by simp
        qed
      qed
    qed
  qed
qed

lemma handle_events_mem: "ClientStore x \<in> set (handle_events t) \<longleftrightarrow> ClientStore x \<in> set t"
  by (induction t rule: handle_events.induct) auto

lemma no_store: "handle_events t = [] \<Longrightarrow> ClientStore x \<notin> set t"
  using handle_events_mem [of x t] by simp

lemma only_after_handle:
  "handle_events [a] = [a] \<Longrightarrow> handle_events [b] = [b] \<Longrightarrow> only_after a b t = only_after a b (handle_events t)"
  by (induction t rule: handle_events.induct) auto

lemma load_close_then_store:
  assumes "client c = Some prev" and "load e c config ig = (r, c', t)" and "ClientStore new \<in> set t"
  shows "handle_events t = [ClientClose prev, ClientStore new] \<and>
         only_after (ClientStore new) (ClientClose prev) t \<and>
         \<not> only_after (ClientClose prev) (ClientStore new) t \<and> client c' = Some new"
proof -
  have st: "ClientStore new \<in> set (handle_events t)"
    using assms(3) by (simp add: handle_events_mem)
  have h: "handle_events t = [ClientClose prev, ClientStore new] \<and> client c' = Some new"
  proof (cases e c config ig rule: load_cases)
    case (err err te)
    from load_Inl [OF err] assms(2) have "t = te" by simp
    with err st show ?thesis using load_endpoints_handle [of e c config ig] by simp
  next
    case (nil te)
    from load_Nil [OF nil] assms(2) have "t = te @ (if ig then [Log LogNoEndpoints] else [])" by simp
    with nil st show ?thesis using load_endpoints_handle [of e c config ig]
      by (simp add: handle_events_append split: if_splits)
  next
    case (tls eps te err tt)
    from load_tls_Inl [OF tls] assms(2) have "t = te @ tt" by simp
    with tls st show ?thesis
      using load_endpoints_handle [of e c config ig] load_tls_handle [of e c config ig]
      by (simp add: handle_events_append)
  next
    case (new_fails eps te tls tt err)
    from load_New_fails [OF new_fails] assms(2)
    have "t = te @ tt @ [ClientNew (new_config eps tls)] @ (if ig then [Log (LogCouldNotCreate eps err)] else [])"
      by simp
    with new_fails st show ?thesis
      using load_endpoints_handle [of e c config ig] load_tls_handle [of e c config ig]
      by (simp add: handle_events_append split: if_splits)
  next
    case (new_ok eps te tls tt)
    from load_New_ok [OF new_ok] assms(2)
    have t: "t = te @ tt @ [ClientNew (new_config eps tls)] @ snd (load_install c (NewClient (new_config eps tls)) eps)"
      and c': "c' = c\<lparr>client := Some (NewClient (new_config eps tls))\<rparr>"
      by simp_all
    have "handle_events t = [ClientClose prev, ClientStore (NewClient (new_config eps tls))]"
      using new_ok load_endpoints_handle [of e c config ig] load_tls_handle [of e c config ig] assms(1)
      by (simp add: t handle_events_append load_install_handle)
    with st c' show ?thesis by auto
  qed
  then show ?thesis
    using only_after_handle [of "ClientStore new" "ClientClose prev" t]
      only_after_handle [of "ClientClose prev" "ClientStore new" t]
    by simp
qed

lemma calls_append: "calls (a @ b) = calls a @ calls b"
  by (induction a rule: calls.induct) simp_all

lemma spawns_append: "spawns (a @ b) = spawns a @ spawns b"
  by (induction a rule: spawns.induct) simp_all

lemma calls_map_Call [simp]: "calls (map Call ls) = ls"
  by (induction ls) simp_all

lemma spawns_map_Call [simp]: "spawns (map Call ls) = []"
  by (induction ls) simp_all

lemma srv_map_Call [simp]: "srv_lookups (map Call ls) = []"
  by (induction ls) simp_all

lemma creations_map_Call [simp]: "client_creations (map Call ls) = []"
  by (induction ls) simp_all

lemma under_lock_map_Call: "calls_under_lock True (map Call ls @ t) = ls @ calls_under_lock True t"
  by (induction ls) simp_all

lemma getConfig_calls [simp]: "calls (snd (getConfigStringWithFallback c config name)) = []"
  using getConfig_cases [of c config name] by auto

lemma getConfig_spawns [simp]: "spawns (snd (getConfigStringWithFallback c config name)) = []"
  using getConfig_cases [of c config name] by auto

lemma quiet_append: "quiet a \<Longrightarrow> quiet b \<Longrightarrow> quiet (a @ b)"
  by (simp add: quiet_def handle_events_append client_creations_append calls_append spawns_append)

lemma quiet_getConfig [simp]: "quiet (snd (getConfigStringWithFallback c config name))"
  by (simp add: quiet_def)

lemma quiet_load_endpoints: "quiet (snd (load_endpoints e c config ig))"
  by (cases "option_value c config ''endpoints'' = ''''"; cases "option_value c config ''discoverysrv'' = ''''")
     (simp_all add: load_endpoints_explicit load_endpoints_srv load_endpoints_none quiet_append,
      simp add: quiet_def calls_append spawns_append handle_events_append client_creations_append)

lemma quiet_load_tls: "quiet (snd (load_tls e c config ig))"
  by (cases "tls_specified c config")
     (simp_all add: load_tls_unspecified load_tls_specified tls_options_log_def quiet_def
        calls_append spawns_append handle_events_append client_creations_append split: sum.splits)


lemma srv_load_install [simp]: "srv_lookups (snd (load_install c new eps)) = []"
  by (simp add: load_install_def Let_def notifyListeners_def srv_lookups_append split: option.splits)

lemma load_endpoints_fails:
  assumes "discovery_fails e c config err"
  shows "fst (load_endpoints e c config ig) =
     (if ig then Inr [] else Inl (CouldNotDiscover (option_value c config ''discoverysrv'') err))"
  using assms by (simp add: discovery_fails_def load_endpoints_srv)

lemma load_endpoints_ok:
  assumes "endpoints_of e c config \<noteq> []"
  shows "fst (load_endpoints e c config ig) = Inr (endpoints_of e c config)"
proof (cases "option_value c config ''endpoints'' = ''''")
  case False
  with assms show ?thesis by (simp add: endpoints_of_def load_endpoints_explicit)
next
  case True
  show ?thesis
  proof (cases "option_value c config ''discoverysrv'' = ''''")
    case True
    with \<open>option_value c config ''endpoints'' = ''''\<close> assms show ?thesis
      by (simp add: endpoints_of_def load_endpoints_none)
  next
    case False
    with True assms show ?thesis
      by (simp add: endpoints_of_def load_endpoints_srv split: sum.splits)
  qed
qed

lemma load_tls_fst:
  "fst (load_tls e c config ig) =
     (if tls_specified c config \<and> \<not> ig then
        (case tls_ClientConfig e (tls_info c config) of
           Inl err \<Rightarrow> Inl (CouldNotSetupTLS err) | Inr tc \<Rightarrow> Inr (Some tc))
      else Inr (tls_of e c config))"
  by (cases "tls_specified c config")
     (auto simp add: load_tls_unspecified load_tls_specified tls_of_def split: sum.splits if_splits)

lemma load_no_endpoints:
  assumes "fst (load_endpoints e c config ig) = Inr []"
  shows "load e c config ig =
     (None, c, snd (load_endpoints e c config ig) @ (if ig then [Log LogNoEndpoints] else []))"
  using assms by (cases "load_endpoints e c config ig") (simp add: load_def)

lemma load_discovery_fails:
  assumes "discovery_fails e c config err"
  shows "load e c config ig =
     (if ig then None else Some (CouldNotDiscover (option_value c config ''discoverysrv'') err), c,
      snd (load_endpoints e c config ig) @ (if ig then [Log LogNoEndpoints] else []))"
  using load_endpoints_fails [OF assms, of ig]
  by (cases "load_endpoints e c config ig") (simp add: load_def)

lemma load_tls_fails:
  assumes "tls_fails e c config err"
  shows "load e c config False =
     (Some (CouldNotSetupTLS err), c,
      snd (load_endpoints e c config False) @ snd (load_tls e c config False))"
proof -
  from assms have E: "endpoints_of e c config \<noteq> []" and
    T: "fst (load_tls e c config False) = Inl (CouldNotSetupTLS err)"
    by (simp_all add: tls_fails_def load_tls_fst)
  from load_endpoints_ok [OF E, of False] T E show ?thesis
    by (cases "load_endpoints e c config False"; cases "load_tls e c config False")
       (simp add: load_def)
qed

lemma load_run:
  assumes "endpoints_of e c config \<noteq> []" and "ig \<or> (\<forall>err. \<not> tls_fails e c config err)"
  shows "load e c config ig =
     (case clientv3_New e (new_config (endpoints_of e c config) (tls_of e c config)) of
        Some err \<Rightarrow>
          (if ig then None else Some err, c,
           snd (load_endpoints e c config ig) @ snd (load_tls e c config ig) @
           [ClientNew (new_config (endpoints_of e c config) (tls_of e c config))] @
           (if ig then [Log (LogCouldNotCreate (endpoints_of e c config) err)] else []))
      | None \<Rightarrow>
          (None, c\<lparr>client := Some (NewClient (new_config (endpoints_of e c config) (tls_of e c config)))\<rparr>,
           snd (load_endpoints e c config ig) @ snd (load_tls e c config ig) @
           [ClientNew (new_config (endpoints_of e c config) (tls_of e c config))] @
           snd (load_install c (NewClient (new_config (endpoints_of e c config) (tls_of e c config)))
                  (endpoints_of e c config))))"
proof -
  have T: "fst (load_tls e c config ig) = Inr (tls_of e c config)"
    using assms by (auto simp add: load_tls_fst tls_fails_def tls_of_def split: sum.splits)
  from load_endpoints_ok [OF assms(1), of ig] T assms(1) show ?thesis
    by (cases "load_endpoints e c config ig"; cases "load_tls e c config ig")
       (simp add: load_def new_config_def load_install_def Let_def split: option.splits)
qed

lemma load_install_quiet:
  "handle_events (snd (load_install c new eps)) =
     (case client c of Some prev \<Rightarrow> [ClientClose prev, ClientStore new] | None \<Rightarrow> [ClientStore new])"
  "calls (snd (load_install c new eps)) = list_of_dlist (listeners c)"
  "spawns (snd (load_install c new eps)) = []"
  "client_creations (snd (load_install c new eps)) = []"
  by (simp_all add: load_install_handle)
     (simp_all add: load_install_def Let_def notifyListeners_def calls_append spawns_append
        client_creations_append split: option.splits)

lemma no_endpoints_cases:
  "(\<exists>err. discovery_fails e c config err \<and> endpoints_of e c config = []) \<or>
   (fst (load_endpoints e c config ig) = Inr [] \<and> endpoints_of e c config = []) \<or>
   endpoints_of e c config \<noteq> []"
proof (cases "endpoints_of e c config = []")
  case False
  then show ?thesis by simp
next
  case E: True
  show ?thesis
  proof (cases "option_value c config ''endpoints'' = ''''")
    case False
    with E show ?thesis by (simp add: endpoints_of_def load_endpoints_explicit)
  next
    case True
    show ?thesis
    proof (cases "option_value c config ''discoverysrv'' = ''''")
      case True
      with \<open>option_value c config ''endpoints'' = ''''\<close> show ?thesis
        by (simp add: endpoints_of_def load_endpoints_none)
    next
      case False
      with True E show ?thesis
        by (auto simp add: endpoints_of_def load_endpoints_srv discovery_fails_def split: sum.splits)
    qed
  qed
qed

lemma load_ignore_returns_nil: "fst (load e c config True) = None"
proof -
  consider (d) err where "discovery_fails e c config err"
    | (n) "fst (load_endpoints e c config True) = Inr []"
    | (r) "endpoints_of e c config \<noteq> []"
    using no_endpoints_cases [of e c config True] by blast
  then show ?thesis
  proof cases
    case d
    then show ?thesis by (simp add: load_discovery_fails)
  next
    case n
    then show ?thesis by (simp add: load_no_endpoints)
  next
    case r
    then show ?thesis by (simp add: load_run split: option.splits)
  qed
qed


lemma load_without_endpoints:
  assumes "endpoints_of e c config = []"
  shows "run_state (load e c config ig) = c \<and> quiet (run_trace (load e c config ig))"
proof -
  have q1: "quiet (snd (load_endpoints e c config b) @ [Log LogNoEndpoints])" for b
    by (intro quiet_append quiet_load_endpoints) (simp add: quiet_def)
  have q2: "quiet (snd (load_endpoints e c config b))" for b
    by (rule quiet_load_endpoints)
  consider (d) err where "discovery_fails e c config err"
    | (n) "fst (load_endpoints e c config ig) = Inr []"
    using no_endpoints_cases [of e c config ig] assms by blast
  then show ?thesis
  proof cases
    case d
    then show ?thesis
      using q1 q2 by (simp add: load_discovery_fails run_state_def run_trace_def)
  next
    case n
    then show ?thesis
      using q1 q2 by (simp add: load_no_endpoints run_state_def run_trace_def)
  qed
qed


lemma load_stores:
  assumes "ClientStore new \<in> set (run_trace (load e c config ig))"
  shows "endpoints_of e c config \<noteq> [] \<and> new = NewClient (new_config (endpoints_of e c config) (tls_of e c config)) \<and>
         client (run_state (load e c config ig)) = Some new \<and>
         (ig \<or> (\<forall>err. \<not> tls_fails e c config err))"
proof -
  have st: "ClientStore new \<in> set (handle_events (run_trace (load e c config ig)))"
    using assms by (simp add: handle_events_mem)
  have E: "endpoints_of e c config \<noteq> []"
    using st load_without_endpoints [of e c config ig] by (auto simp add: quiet_def)
  have T: "ig \<or> (\<forall>err. \<not> tls_fails e c config err)"
  proof (rule ccontr)
    assume "\<not> ?thesis"
    then obtain err where "tls_fails e c config err" and "\<not> ig" by blast
    with load_tls_fails [of e c config err] st show False
      by (simp add: run_trace_def handle_events_append)
  qed
  from load_run [OF E T] st show ?thesis using E T
    by (auto simp add: run_trace_def run_state_def handle_events_append load_install_quiet
          split: option.splits if_splits)
qed

lemma store_in_install: "ClientStore new \<in> set (snd (load_install c new eps))"
  by (simp add: load_install_def Let_def)

lemma load_stored_iff:
  "(\<exists>new. ClientStore new \<in> set (run_trace (load e c config ig))) \<longleftrightarrow>
     endpoints_of e c config \<noteq> [] \<and> (ig \<or> (\<forall>err. \<not> tls_fails e c config err)) \<and>
     clientv3_New e (new_config (endpoints_of e c config) (tls_of e c config)) = None"
  (is "?L \<longleftrightarrow> ?R")
proof
  assume ?L
  then obtain new where st: "ClientStore new \<in> set (run_trace (load e c config ig))" by blast
  from load_stores [OF st] have E: "endpoints_of e c config \<noteq> []"
    and T: "ig \<or> (\<forall>err. \<not> tls_fails e c config err)" by simp_all
  have "clientv3_New e (new_config (endpoints_of e c config) (tls_of e c config)) = None"
  proof (rule ccontr)
    assume "\<not> ?thesis"
    then obtain err where "clientv3_New e (new_config (endpoints_of e c config) (tls_of e c config)) = Some err"
      by auto
    with load_run [OF E T] have "handle_events (run_trace (load e c config ig)) = []"
      by (simp add: run_trace_def handle_events_append)
    from no_store [OF this] st show False by simp
  qed
  with E T show ?R by simp
next
  assume R: ?R
  then have E: "endpoints_of e c config \<noteq> []"
    and T: "ig \<or> (\<forall>err. \<not> tls_fails e c config err)" by simp_all
  from load_run [OF E T] R
  have "ClientStore (NewClient (new_config (endpoints_of e c config) (tls_of e c config)))
          \<in> set (run_trace (load e c config ig))"
    by (simp add: run_trace_def store_in_install)
  then show ?L by blast
qed

lemma operations_on_nil:
  assumes "client c = None"
  shows "Get e c ctx key opts = Inl NilPointerDereference \<and>
         fst (Watch e c ctx key opts) = Inl NilPointerDereference \<and>
         watcher_calls (snd (Watch e c ctx key opts)) = [] \<and>
         WaitForConnection e initial maxd c = Some (Inl NilPointerDereference, []) \<and>
         Close e c = (Inr None, []) \<and> \<not> IsConfigured c"
  using assms
  by (simp add: Get_def Watch_def WaitForConnection_def WaitForConnection_loop.simps [of e maxd c 0]
        syncClient_def Close_def IsConfigured_def getEtcdClient_def)

subsection \<open>Watch\<close>

lemma watcher_calls_append: "watcher_calls (a @ b) = watcher_calls a @ watcher_calls b"
  by (induction a rule: watcher_calls.induct) simp_all

lemma sleeps_append: "sleeps (a @ b) = sleeps a @ sleeps b"
  by (induction a rule: sleeps.induct) simp_all

lemma watcher_calls_dispatch: "watcher_calls (dispatch evs) = concat (map relay_spec evs)"
  by (induction evs) (simp_all add: relay_spec_def watcher_calls_append)

lemma Watch_loop_result:
  "fst (Watch_loop ch) = (case dropWhile (\<lambda>r. Err r = None) ch of [] \<Rightarrow> None | r # _ \<Rightarrow> Err r)"
  by (induction ch) (auto split: option.splits prod.splits)

lemma Watch_loop_calls:
  "watcher_calls (snd (Watch_loop ch)) =
     concat (map relay_spec (concat (map Events (takeWhile (\<lambda>r. Err r = None) ch))))"
  by (induction ch) (auto simp: watcher_calls_append watcher_calls_dispatch split: option.splits prod.splits)

subsection \<open>The retry loop\<close>

lemma wrap64_id: "- (2 ^ 63) \<le> x \<Longrightarrow> x < 2 ^ 63 \<Longrightarrow> wrap64 x = x"
  by (simp add: wrap64_def)

lemma cap_pow:
  fixes d m :: int
  assumes "0 \<le> d" "0 \<le> m"
  shows "min (min (d * 2) m * 2 ^ i) m = min (d * 2 ^ Suc i) m"
proof (cases "d * 2 \<le> m")
  case True
  then show ?thesis by (simp add: mult.assoc min_def)
next
  case False
  have one: "(1::int) \<le> 2 ^ i" by simp
  have "m * 1 \<le> m * 2 ^ i" using one assms(2) by (rule mult_left_mono)
  then have a: "m \<le> m * 2 ^ i" by simp
  have b: "m * 2 ^ i \<le> (d * 2) * 2 ^ i" using False by (simp add: mult_right_mono)
  have "m \<le> (d * 2) * 2 ^ i" using a b by (rule order_trans)
  then have "m \<le> d * 2 ^ Suc i" by (simp add: mult.assoc)
  then have "min (d * 2 ^ Suc i) m = m" by (simp del: power_Suc)
  moreover have "min (min (d * 2) m * 2 ^ i) m = m" using False a by simp
  ultimately show ?thesis by (simp del: power_Suc)
qed

lemma backoff_spec_Suc:
  assumes "0 \<le> d" "0 \<le> m" "d \<le> m"
  shows "backoff_spec d m (Suc k) = d # backoff_spec (min (d * 2) m) m k"
proof -
  have "[0..<Suc k] = 0 # map Suc [0..<k]"
    by (simp add: upt_conv_Cons map_Suc_upt del: upt_Suc)
  then have "backoff_spec d m (Suc k) = min d m # map (\<lambda>i. min (d * 2 ^ Suc i) m) [0..<k]"
    by (simp add: backoff_spec_def comp_def del: upt_Suc)
  also have "\<dots> = d # map (\<lambda>i. min (min (d * 2) m * 2 ^ i) m) [0..<k]"
    using assms cap_pow [OF assms(1,2)] by (simp add: min_def del: power_Suc)
  finally show ?thesis by (simp add: backoff_spec_def)
qed

lemma loop_success:
  assumes "client c = Some cl" "m < 2 ^ 62"
  shows "0 \<le> d \<Longrightarrow> d \<le> m \<Longrightarrow> \<forall>i<k. client_Sync e (n + i) \<noteq> None \<Longrightarrow> client_Sync e (n + k) = None \<Longrightarrow>
     \<exists>t. WaitForConnection_loop e m c n d tr = Some (Inr (), t) \<and>
         sleeps t = sleeps tr @ backoff_spec d m k"
proof (induction k arbitrary: n d tr)
  case 0
  then show ?case using assms(1)
    by (subst WaitForConnection_loop.simps)
       (simp add: syncClient_def getEtcdClient_def sleeps_append backoff_spec_def)
next
  case (Suc k)
  from Suc.prems(3) obtain err where err: "client_Sync e n = Some err"
    by (metis add.right_neutral not_None_eq zero_less_Suc)
  let ?d = "min (d * 2) m"
  let ?tr = "tr @ [ClientSync cl] @ [Log (if err = DeadlineExceeded then LogSyncTimeout d else LogSyncFailed d err), Sleep d]"
  have w: "wrap64 (d * 2) = d * 2"
    using Suc.prems(1,2) assms(2) by (intro wrap64_id) simp_all
  have step: "WaitForConnection_loop e m c n d tr = WaitForConnection_loop e m c (Suc n) ?d ?tr"
    using assms(1) err w
    by (subst WaitForConnection_loop.simps)
       (simp add: syncClient_def getEtcdClient_def min_def Let_def)
  have "\<forall>i<k. client_Sync e (Suc n + i) \<noteq> None" using Suc.prems(3) by auto
  moreover have "client_Sync e (Suc n + k) = None" using Suc.prems(4) by simp
  moreover have "0 \<le> ?d" "?d \<le> m" using Suc.prems(1,2) by simp_all
  ultimately obtain t where t: "WaitForConnection_loop e m c (Suc n) ?d ?tr = Some (Inr (), t)"
      "sleeps t = sleeps ?tr @ backoff_spec ?d m k"
    using Suc.IH [of ?d "Suc n" ?tr] by blast
  have "0 \<le> m" using Suc.prems(1,2) by simp
  then show ?case
    using step t backoff_spec_Suc [of d m k] Suc.prems(1,2) by (simp add: sleeps_append)
qed

lemma loop_result:
  assumes "WaitForConnection_loop e m c n d tr = Some y"
  shows "(client c \<noteq> None \<longrightarrow> fst y = Inr () \<and> (\<exists>k\<ge>n. client_Sync e k = None)) \<and>
         (client c = None \<longrightarrow> y = (Inl NilPointerDereference, tr))"
proof (rule WaitForConnection_loop.raw_induct
    [where P = "\<lambda>e m c n d tr y.
       (client c \<noteq> None \<longrightarrow> fst y = Inr () \<and> (\<exists>k\<ge>n. client_Sync e k = None)) \<and>
       (client c = None \<longrightarrow> y = (Inl NilPointerDereference, tr))", OF _ assms])
  fix f :: "env \<Rightarrow> Duration \<Rightarrow> EtcdClient \<Rightarrow> nat \<Rightarrow> Duration \<Rightarrow> event list \<Rightarrow> ((panic + unit) \<times> event list) option"
  fix e m c n d tr y
  assume IH: "\<And>e m c n d tr y. f e m c n d tr = Some y \<Longrightarrow>
       (client c \<noteq> None \<longrightarrow> fst y = Inr () \<and> (\<exists>k\<ge>n. client_Sync e k = None)) \<and>
       (client c = None \<longrightarrow> y = (Inl NilPointerDereference, tr))"
  assume body: "(case syncClient e c n of (Inl p, t) \<Rightarrow> Some (Inl p, tr @ t)
      | (Inr None, t) \<Rightarrow>
          (case getEtcdClient c of
          None \<Rightarrow> Some (Inl NilPointerDereference, tr @ t)
          | Some cl \<Rightarrow> Some (Inr (), tr @ t @ [Log (LogSynced (client_Endpoints e cl))]))
      | (Inr (Some err), t) \<Rightarrow>
          f e m c (Suc n)
           (let d' = wrap64 (d * 2) in if m < d' then m else d')
           (tr @ t @ [Log (if err = DeadlineExceeded then LogSyncTimeout d else LogSyncFailed d err), Sleep d])) = Some y"
  show "(client c \<noteq> None \<longrightarrow> fst y = Inr () \<and> (\<exists>k\<ge>n. client_Sync e k = None)) \<and>
       (client c = None \<longrightarrow> y = (Inl NilPointerDereference, tr))"
  proof (cases "client c")
    case None
    with body show ?thesis by (simp add: syncClient_def getEtcdClient_def)
  next
    case (Some cl)
    show ?thesis
    proof (cases "client_Sync e n")
      case None
      with Some body show ?thesis by (auto simp add: syncClient_def getEtcdClient_def)
    next
      case err: (Some err)
      with Some body obtain d' tr' where "f e m c (Suc n) d' tr' = Some y"
        by (simp add: syncClient_def getEtcdClient_def)
      from IH [OF this] Some obtain k where "fst y = Inr ()" "Suc n \<le> k" "client_Sync e k = None"
        by auto
      then have "fst y = Inr () \<and> (\<exists>k\<ge>n. client_Sync e k = None)"
        using Suc_leD by blast
      with Some show ?thesis by simp
    qed
  qed
qed

lemma WaitForConnection_backoff:
  assumes "client c = Some cl" and "0 \<le> initial" and "initial \<le> maxd" and "maxd < 2 ^ 62"
  shows "(\<forall>i<N. client_Sync e i \<noteq> None) \<and> client_Sync e N = None \<longrightarrow>
           (\<exists>t. WaitForConnection e initial maxd c = Some (Inr (), t) \<and>
                sleeps t = backoff_spec initial maxd N)"
    and "(\<forall>i. client_Sync e i \<noteq> None) \<longrightarrow> WaitForConnection e initial maxd c = None"
proof -
  show "(\<forall>i<N. client_Sync e i \<noteq> None) \<and> client_Sync e N = None \<longrightarrow>
           (\<exists>t. WaitForConnection e initial maxd c = Some (Inr (), t) \<and>
                sleeps t = backoff_spec initial maxd N)"
    using loop_success [OF assms(1,4,2,3), of N e 0 "[]"] by (simp add: WaitForConnection_def)
  show "(\<forall>i. client_Sync e i \<noteq> None) \<longrightarrow> WaitForConnection e initial maxd c = None"
  proof (intro impI, rule ccontr)
    assume never: "\<forall>i. client_Sync e i \<noteq> None" and "WaitForConnection e initial maxd c \<noteq> None"
    then obtain y where "WaitForConnection_loop e maxd c 0 initial [] = Some y"
      by (auto simp: WaitForConnection_def)
    from loop_result [OF this] assms(1) never show False by auto
  qed
qed

subsection \<open>The example runs\<close>

lemmas run_defs = load_def load_endpoints_def load_tls_def load_install_def notifyListeners_def
  getConfigStringWithFallback_def GetString_def getEtcdClient_def TrimSpace_def TrimLeftSpace.simps TrimRightSpace.simps leading_space_def
  trailing_space_def space_runes_def
  Let_def run_trace_def run_state_def

lemmas ex_defs = ex_env_def ex_ok_env_def ex_no_srv_env_def ex_no_tls_env_def ex_no_new_env_def
  ex_no_tls_no_new_env_def ex_spaced_config_def ex_nbsp_config_def
  ex_down_env_def ex_config_def ex_tls_config_def ex_srv_config_def ex_prev_def ex_client_def
  ex_fresh_def ex_new_def

lemma ex_load_replace:
  "load ex_ok_env ex_client ex_config True =
     (None, ex_client\<lparr>client := Some ex_new\<rparr>,
      [ClientNew (client_cfg ex_new), ClientClose ex_prev, ClientStore ex_new,
       Log (LogUsingEndpoints [''10.0.0.1:2379'', ''10.0.0.2:2379'']),
       MuLock, Call 1, Call 2, MuUnlock])"
  by (simp add: run_defs ex_defs)

lemma ex_load_tls_disabled:
  "load ex_no_tls_env ex_client ex_tls_config True =
     (None,
      ex_client\<lparr>client := Some (NewClient (new_config [''10.0.0.1:2379''] None))\<rparr>,
      [TLSClientConfig \<lparr>CertFile = ''client.crt'', KeyFile = ''client.key'', TrustedCAFile = ''ca.crt''\<rparr>,
       Log (LogTLSDisabled (ExternalError ''no such file'')),
       ClientNew (new_config [''10.0.0.1:2379''] None),
       ClientClose ex_prev,
       ClientStore (NewClient (new_config [''10.0.0.1:2379''] None)),
       Log (LogUsingEndpoints [''10.0.0.1:2379'']), MuLock, Call 1, Call 2, MuUnlock])"
  by (simp add: run_defs ex_defs new_config_def)

lemma ex_load_tls:
  "load ex_ok_env ex_client ex_tls_config False =
     (None,
      ex_client\<lparr>client := Some (NewClient (new_config [''10.0.0.1:2379''] (Some (TLSConfig 0))))\<rparr>,
      [TLSClientConfig \<lparr>CertFile = ''client.crt'', KeyFile = ''client.key'', TrustedCAFile = ''ca.crt''\<rparr>,
       ClientNew (new_config [''10.0.0.1:2379''] (Some (TLSConfig 0))),
       ClientClose ex_prev,
       ClientStore (NewClient (new_config [''10.0.0.1:2379''] (Some (TLSConfig 0)))),
       Log (LogUsingEndpoints [''10.0.0.1:2379'']), MuLock, Call 1, Call 2, MuUnlock])"
  by (simp add: run_defs ex_defs new_config_def)

lemma ex_load_no_srv:
  "load ex_no_srv_env ex_client ex_srv_config True =
     (None, ex_client, [SrvGetClient ''etcd-client'' ''example.com'' '''', Log LogNoEndpoints])"
  by (simp add: run_defs ex_defs)

lemma ex_option_values:
  "option_value ex_client ex_config ''endpoints'' = ''10.0.0.1:2379, 10.0.0.2:2379 ,,''"
  "option_value ex_fresh ex_srv_config ''endpoints'' = ''''"
  "option_value ex_fresh ex_srv_config ''discoverysrv'' = ''example.com''"
  "option_value ex_fresh ex_srv_config ''discoveryservice'' = ''''"
  "option_value ex_client ex_srv_config ''endpoints'' = ''''"
  "option_value ex_client ex_srv_config ''discoverysrv'' = ''example.com''"
  "option_value ex_client ex_srv_config ''discoveryservice'' = ''''"
  "option_value ex_client Map.empty ''endpoints'' = ''''"
  "option_value ex_client Map.empty ''discoverysrv'' = ''''"
  "option_value ex_client ex_tls_config ''clientkey'' = ''client.key''"
  "option_value ex_client ex_tls_config ''clientcert'' = ''client.crt''"
  "option_value ex_client ex_tls_config ''cacert'' = ''ca.crt''"
  "option_value ex_client ex_config ''clientkey'' = ''''"
  by (simp_all add: option_value_def run_defs ex_defs)

lemma ex_endpoints_of:
  "endpoints_of e ex_client ex_tls_config = [''10.0.0.1:2379'']"
  "endpoints_of e ex_client ex_config = [''10.0.0.1:2379'', ''10.0.0.2:2379'']"
  by (simp_all add: endpoints_of_def run_defs ex_defs)




lemma ex_failures:
  "discovery_fails ex_no_srv_env ex_client ex_srv_config (ExternalError ''no such host'')"
  "tls_fails ex_no_tls_env ex_client ex_tls_config (ExternalError ''no such file'')"
  "creation_fails ex_no_new_env ex_client ex_tls_config (ExternalError ''bad endpoint'')"
  "\<forall>err'. \<not> tls_fails ex_no_new_env ex_client ex_tls_config err'"
  "tls_fails ex_no_tls_no_new_env ex_client ex_tls_config (ExternalError ''no such file'')"
  by (simp_all add: discovery_fails_def tls_fails_def creation_fails_def ex_option_values
        ex_endpoints_of tls_specified_def tls_info_def)
     (simp_all add: ex_no_srv_env_def ex_no_tls_env_def ex_no_new_env_def ex_no_tls_no_new_env_def
        ex_env_def)

section \<open>Properties\<close>

subsection \<open>Loading a configuration\<close>

text \<open>
  Claim C1 says that \<^verbatim>\<open>load\<close> closes the previous client only after the new one is in
  the slot. The code does it the other way round (lines 144 to 148): it reads the
  previous client, closes it, and then stores the new one.

  Claim C1, as amended. When \<^verbatim>\<open>load\<close> stores a new client while a previous one is
  installed, its effects on client handles are exactly two, in this order: it closes the
  previous client, then it stores the new one. So the store comes only after the close,
  and the slot holds the new client afterwards.
\<close>

theorem load_closes_before_store:
  assumes "client c = Some prev"
    and "ClientStore new \<in> set (run_trace (load e c config ig))"
  shows "handle_events (run_trace (load e c config ig)) = [ClientClose prev, ClientStore new] \<and>
         only_after (ClientStore new) (ClientClose prev) (run_trace (load e c config ig)) \<and>
         client (run_state (load e c config ig)) = Some new"
proof -
  obtain r c' t where l: "load e c config ig = (r, c', t)"
    by (cases "load e c config ig")
  from assms(2) l have "ClientStore new \<in> set t" by (simp add: run_trace_def)
  from load_close_then_store [OF assms(1) l this] l show ?thesis
    by (simp add: run_trace_def run_state_def)
qed

theorem load_closes_before_store_witness:
  "client ex_client = Some ex_prev \<and>
   ClientStore ex_new \<in> set (run_trace (load ex_ok_env ex_client ex_config True)) \<and>
   handle_events (run_trace (load ex_ok_env ex_client ex_config True)) =
     [ClientClose ex_prev, ClientStore ex_new] \<and>
   only_after (ClientStore ex_new) (ClientClose ex_prev)
     (run_trace (load ex_ok_env ex_client ex_config True)) \<and>
   client (run_state (load ex_ok_env ex_client ex_config True)) = Some ex_new"
proof -
  have a: "client ex_client = Some ex_prev" by (simp add: ex_client_def)
  have b: "ClientStore ex_new \<in> set (run_trace (load ex_ok_env ex_client ex_config True))"
    by (simp add: ex_load_replace run_trace_def)
  from a b load_closes_before_store [OF a b] show ?thesis by simp
qed

text \<open>
  The run that refutes claim C1 as it is stated: a client is installed, the new one is
  created and stored, and the close of the previous client has no store before it.
\<close>

theorem load_publish_then_close_counterexample:
  "client ex_client = Some ex_prev \<and>
   ClientStore ex_new \<in> set (run_trace (load ex_ok_env ex_client ex_config True)) \<and>
   \<not> only_after (ClientClose ex_prev) (ClientStore ex_new)
        (run_trace (load ex_ok_env ex_client ex_config True))"
  by (simp add: ex_load_replace run_trace_def) (simp add: ex_defs)

text \<open>
  Claim C3 says that \<^verbatim>\<open>load\<close> with \<^verbatim>\<open>ignoreErrors\<close> logs every failure and leaves the
  client slot unchanged on any failure. Neither holds throughout. After a failed TLS
  configuration the code logs it, leaves \<^verbatim>\<open>cfg.TLS\<close> nil and goes on to create and
  install a client without TLS (lines 125 to 133). And the error of a failed SRV lookup
  is dropped without a log line of its own (lines 92 to 95).

  Claim C3, as amended. With \<^verbatim>\<open>ignoreErrors\<close> false \<^verbatim>\<open>load\<close> returns the error of a failed
  SRV lookup and of a failed TLS configuration, each in its wrapper, and the error of a
  failed \<^verbatim>\<open>clientv3.New\<close> as it is, and leaves the state as it was. With \<^verbatim>\<open>ignoreErrors\<close>
  true \<^verbatim>\<open>load\<close> always returns nil. It then logs a failed TLS configuration and a failed
  \<^verbatim>\<open>clientv3.New\<close> with the error. After a failed SRV lookup and after a failed
  \<^verbatim>\<open>clientv3.New\<close> it closes and stores no client and leaves the state as it was. After a
  failed TLS configuration it creates a client from the same endpoints with TLS disabled:
  when that creation succeeds the new client is stored in the slot, the previous one (if
  any) closed before, and the listeners are notified; when it fails the state is left as
  it was.
\<close>

theorem load_error_policy:
  "fst (load e c config True) = None \<and>
   (discovery_fails e c config err \<longrightarrow>
      load e c config False =
        (Some (CouldNotDiscover (option_value c config ''discoverysrv'') err), c,
         snd (load_endpoints e c config False)) \<and>
      load e c config True = (None, c, snd (load_endpoints e c config False) @ [Log LogNoEndpoints]) \<and>
      quiet (snd (load_endpoints e c config False)) \<and>
      run_state (load e c config True) = c \<and> quiet (run_trace (load e c config True))) \<and>
   (tls_fails e c config err \<longrightarrow>
      fst (load e c config False) = Some (CouldNotSetupTLS err) \<and>
      run_state (load e c config False) = c \<and>
      quiet (run_trace (load e c config False)) \<and>
      Log (LogTLSDisabled err) \<in> set (run_trace (load e c config True)) \<and>
      client_creations (run_trace (load e c config True)) =
        [new_config (endpoints_of e c config) None] \<and>
      (clientv3_New e (new_config (endpoints_of e c config) None) = None \<longrightarrow>
         run_state (load e c config True) =
           c\<lparr>client := Some (NewClient (new_config (endpoints_of e c config) None))\<rparr> \<and>
         handle_events (run_trace (load e c config True)) =
           (case client c of
              None \<Rightarrow> [ClientStore (NewClient (new_config (endpoints_of e c config) None))]
            | Some prev \<Rightarrow>
                [ClientClose prev,
                 ClientStore (NewClient (new_config (endpoints_of e c config) None))]) \<and>
         calls (run_trace (load e c config True)) = list_of_dlist (listeners c)) \<and>
      (\<forall>err'. clientv3_New e (new_config (endpoints_of e c config) None) = Some err' \<longrightarrow>
         run_state (load e c config True) = c \<and>
         handle_events (run_trace (load e c config True)) = [] \<and>
         Log (LogCouldNotCreate (endpoints_of e c config) err')
           \<in> set (run_trace (load e c config True)))) \<and>
   (creation_fails e c config err \<longrightarrow>
      ((\<forall>err'. \<not> tls_fails e c config err') \<longrightarrow>
         fst (load e c config False) = Some err \<and> run_state (load e c config False) = c \<and>
         handle_events (run_trace (load e c config False)) = []) \<and>
      run_state (load e c config True) = c \<and>
      handle_events (run_trace (load e c config True)) = [] \<and>
      Log (LogCouldNotCreate (endpoints_of e c config) err) \<in> set (run_trace (load e c config True)))"
proof (intro conjI impI allI)
  show "fst (load e c config True) = None" by (rule load_ignore_returns_nil)
next
  assume d: "discovery_fails e c config err"
  have same: "snd (load_endpoints e c config True) = snd (load_endpoints e c config False)"
    using d by (simp add: discovery_fails_def load_endpoints_srv)
  show "load e c config False =
        (Some (CouldNotDiscover (option_value c config ''discoverysrv'') err), c,
         snd (load_endpoints e c config False))"
    using load_discovery_fails [OF d, of False] by simp
  show "load e c config True = (None, c, snd (load_endpoints e c config False) @ [Log LogNoEndpoints])"
    using load_discovery_fails [OF d, of True] same by simp
  show "quiet (snd (load_endpoints e c config False))" by (rule quiet_load_endpoints)
  have "quiet (snd (load_endpoints e c config False) @ [Log LogNoEndpoints])"
    by (intro quiet_append quiet_load_endpoints) (simp add: quiet_def)
  then show "run_state (load e c config True) = c" and "quiet (run_trace (load e c config True))"
    using load_discovery_fails [OF d, of True] same by (simp_all add: run_state_def run_trace_def)
next
  assume t: "tls_fails e c config err"
  then have E: "endpoints_of e c config \<noteq> []" and S: "tls_specified c config"
    and F: "tls_ClientConfig e (tls_info c config) = Inl err"
    by (simp_all add: tls_fails_def)
  have T: "tls_of e c config = None" using S F by (simp add: tls_of_def)
  show "fst (load e c config False) = Some (CouldNotSetupTLS err)"
    by (simp add: load_tls_fails [OF t])
  show "run_state (load e c config False) = c"
    by (simp add: load_tls_fails [OF t] run_state_def)
  show "quiet (run_trace (load e c config False))"
    by (simp add: load_tls_fails [OF t] run_trace_def quiet_append quiet_load_endpoints quiet_load_tls)
  have tt: "snd (load_tls e c config True) =
      tls_options_log c config @ [TLSClientConfig (tls_info c config), Log (LogTLSDisabled err)]"
    using S F by (simp add: load_tls_specified)
  have q: "client_creations (snd (load_endpoints e c config True)) = []"
    "client_creations (tls_options_log c config) = []"
    using quiet_load_endpoints [of e c config True]
    by (simp_all add: quiet_def tls_options_log_def client_creations_append)
  show "Log (LogTLSDisabled err) \<in> set (run_trace (load e c config True))"
    using load_run [OF E, of True] tt by (simp add: run_trace_def split: option.splits)
  show "client_creations (run_trace (load e c config True)) = [new_config (endpoints_of e c config) None]"
    using load_run [OF E, of True] tt T q
    by (simp add: run_trace_def client_creations_append load_install_quiet split: option.splits)
  have h: "handle_events (snd (load_endpoints e c config True)) = []"
    "handle_events (snd (load_tls e c config True)) = []"
    "calls (snd (load_endpoints e c config True)) = []"
    "calls (snd (load_tls e c config True)) = []"
    using quiet_load_endpoints [of e c config True] quiet_load_tls [of e c config True]
    by (simp_all add: quiet_def)
  {
    assume N: "clientv3_New e (new_config (endpoints_of e c config) None) = None"
    show "run_state (load e c config True) =
           c\<lparr>client := Some (NewClient (new_config (endpoints_of e c config) None))\<rparr>"
      using load_run [OF E, of True] T N by (simp add: run_state_def)
    show "handle_events (run_trace (load e c config True)) =
           (case client c of
              None \<Rightarrow> [ClientStore (NewClient (new_config (endpoints_of e c config) None))]
            | Some prev \<Rightarrow>
                [ClientClose prev,
                 ClientStore (NewClient (new_config (endpoints_of e c config) None))])"
      using load_run [OF E, of True] T N h
      by (simp add: run_trace_def handle_events_append load_install_quiet)
    show "calls (run_trace (load e c config True)) = list_of_dlist (listeners c)"
      using load_run [OF E, of True] T N h
      by (simp add: run_trace_def calls_append load_install_quiet)
  }
  {
    fix err'
    assume N: "clientv3_New e (new_config (endpoints_of e c config) None) = Some err'"
    show "run_state (load e c config True) = c"
      using load_run [OF E, of True] T N by (simp add: run_state_def)
    show "handle_events (run_trace (load e c config True)) = []"
      using load_run [OF E, of True] T N h by (simp add: run_trace_def handle_events_append)
    show "Log (LogCouldNotCreate (endpoints_of e c config) err')
           \<in> set (run_trace (load e c config True))"
      using load_run [OF E, of True] T N by (simp add: run_trace_def)
  }
next
  assume cf: "creation_fails e c config err"
  then have E: "endpoints_of e c config \<noteq> []"
    and N: "clientv3_New e (new_config (endpoints_of e c config) (tls_of e c config)) = Some err"
    by (simp_all add: creation_fails_def)
  have q: "handle_events (snd (load_endpoints e c config ig)) = []"
    "handle_events (snd (load_tls e c config ig)) = []" for ig
    by simp_all
  show "run_state (load e c config True) = c"
    using load_run [OF E, of True] N by (simp add: run_state_def)
  show "handle_events (run_trace (load e c config True)) = []"
    using load_run [OF E, of True] N q by (simp add: run_trace_def handle_events_append)
  show "Log (LogCouldNotCreate (endpoints_of e c config) err) \<in> set (run_trace (load e c config True))"
    using load_run [OF E, of True] N by (simp add: run_trace_def)
  assume nt: "\<forall>err'. \<not> tls_fails e c config err'"
  show "fst (load e c config False) = Some err"
    using load_run [OF E, of False] N nt by simp
  show "run_state (load e c config False) = c"
    using load_run [OF E, of False] N nt by (simp add: run_state_def)
  show "handle_events (run_trace (load e c config False)) = []"
    using load_run [OF E, of False] N nt q by (simp add: run_trace_def handle_events_append)
qed

theorem load_error_policy_witness:
  "discovery_fails ex_no_srv_env ex_client ex_srv_config (ExternalError ''no such host'') \<and>
   fst (load ex_no_srv_env ex_client ex_srv_config False) =
     Some (CouldNotDiscover ''example.com'' (ExternalError ''no such host'')) \<and>
   run_state (load ex_no_srv_env ex_client ex_srv_config False) = ex_client \<and>
   fst (load ex_no_srv_env ex_client ex_srv_config True) = None \<and>
   run_state (load ex_no_srv_env ex_client ex_srv_config True) = ex_client \<and>
   tls_fails ex_no_tls_env ex_client ex_tls_config (ExternalError ''no such file'') \<and>
   fst (load ex_no_tls_env ex_client ex_tls_config False) =
     Some (CouldNotSetupTLS (ExternalError ''no such file'')) \<and>
   run_state (load ex_no_tls_env ex_client ex_tls_config False) = ex_client \<and>
   fst (load ex_no_tls_env ex_client ex_tls_config True) = None \<and>
   client_creations (run_trace (load ex_no_tls_env ex_client ex_tls_config True)) =
     [new_config [''10.0.0.1:2379''] None] \<and>
   clientv3_New ex_no_tls_env (new_config [''10.0.0.1:2379''] None) = None \<and>
   run_state (load ex_no_tls_env ex_client ex_tls_config True) =
     ex_client\<lparr>client := Some (NewClient (new_config [''10.0.0.1:2379''] None))\<rparr> \<and>
   handle_events (run_trace (load ex_no_tls_env ex_client ex_tls_config True)) =
     [ClientClose ex_prev, ClientStore (NewClient (new_config [''10.0.0.1:2379''] None))] \<and>
   calls (run_trace (load ex_no_tls_env ex_client ex_tls_config True)) = [1, 2] \<and>
   tls_fails ex_no_tls_no_new_env ex_client ex_tls_config (ExternalError ''no such file'') \<and>
   clientv3_New ex_no_tls_no_new_env (new_config [''10.0.0.1:2379''] None) =
     Some (ExternalError ''bad endpoint'') \<and>
   run_state (load ex_no_tls_no_new_env ex_client ex_tls_config True) = ex_client \<and>
   handle_events (run_trace (load ex_no_tls_no_new_env ex_client ex_tls_config True)) = [] \<and>
   creation_fails ex_no_new_env ex_client ex_tls_config (ExternalError ''bad endpoint'') \<and>
   fst (load ex_no_new_env ex_client ex_tls_config False) = Some (ExternalError ''bad endpoint'') \<and>
   run_state (load ex_no_new_env ex_client ex_tls_config False) = ex_client \<and>
   fst (load ex_no_new_env ex_client ex_tls_config True) = None \<and>
   run_state (load ex_no_new_env ex_client ex_tls_config True) = ex_client \<and>
   handle_events (run_trace (load ex_no_new_env ex_client ex_tls_config True)) = []"
proof -
  note f = ex_failures
  from load_error_policy [of ex_no_srv_env ex_client ex_srv_config "ExternalError ''no such host''"] f(1)
  have 1: "fst (load ex_no_srv_env ex_client ex_srv_config False) =
     Some (CouldNotDiscover ''example.com'' (ExternalError ''no such host''))"
    "run_state (load ex_no_srv_env ex_client ex_srv_config False) = ex_client"
    "fst (load ex_no_srv_env ex_client ex_srv_config True) = None"
    "run_state (load ex_no_srv_env ex_client ex_srv_config True) = ex_client"
    by (simp_all add: run_state_def ex_option_values)
  from load_error_policy [of ex_no_tls_env ex_client ex_tls_config "ExternalError ''no such file''"] f(2)
  have 2: "fst (load ex_no_tls_env ex_client ex_tls_config False) =
     Some (CouldNotSetupTLS (ExternalError ''no such file''))"
    "run_state (load ex_no_tls_env ex_client ex_tls_config False) = ex_client"
    "fst (load ex_no_tls_env ex_client ex_tls_config True) = None"
    "client_creations (run_trace (load ex_no_tls_env ex_client ex_tls_config True)) =
       [new_config [''10.0.0.1:2379''] None]"
    by (simp_all add: ex_endpoints_of)
  have n: "clientv3_New ex_no_tls_env (new_config [''10.0.0.1:2379''] None) = None"
    "clientv3_New ex_no_tls_no_new_env (new_config [''10.0.0.1:2379''] None) =
       Some (ExternalError ''bad endpoint'')"
    "client ex_client = Some ex_prev" "list_of_dlist (listeners ex_client) = [1, 2]"
    by (simp_all add: ex_no_tls_env_def ex_no_tls_no_new_env_def ex_env_def ex_client_def)
  from load_error_policy [of ex_no_tls_env ex_client ex_tls_config "ExternalError ''no such file''"]
    f(2) n
  have 4: "run_state (load ex_no_tls_env ex_client ex_tls_config True) =
       ex_client\<lparr>client := Some (NewClient (new_config [''10.0.0.1:2379''] None))\<rparr>"
    "handle_events (run_trace (load ex_no_tls_env ex_client ex_tls_config True)) =
       [ClientClose ex_prev, ClientStore (NewClient (new_config [''10.0.0.1:2379''] None))]"
    "calls (run_trace (load ex_no_tls_env ex_client ex_tls_config True)) = [1, 2]"
    by (simp_all add: ex_endpoints_of)
  from load_error_policy [of ex_no_tls_no_new_env ex_client ex_tls_config
      "ExternalError ''no such file''"] f(5) n
  have 5: "run_state (load ex_no_tls_no_new_env ex_client ex_tls_config True) = ex_client"
    "handle_events (run_trace (load ex_no_tls_no_new_env ex_client ex_tls_config True)) = []"
    by (simp_all add: ex_endpoints_of)
  from load_error_policy [of ex_no_new_env ex_client ex_tls_config "ExternalError ''bad endpoint''"] f(3,4)
  have 3: "fst (load ex_no_new_env ex_client ex_tls_config False) = Some (ExternalError ''bad endpoint'')"
    "run_state (load ex_no_new_env ex_client ex_tls_config False) = ex_client"
    "fst (load ex_no_new_env ex_client ex_tls_config True) = None"
    "run_state (load ex_no_new_env ex_client ex_tls_config True) = ex_client"
    "handle_events (run_trace (load ex_no_new_env ex_client ex_tls_config True)) = []"
    by simp_all
  from f(1,2,3,5) 1 2 3 4 5 n(1,2) show ?thesis by simp
qed

text \<open>
  The runs that refute claim C3 as it is stated. In the first the TLS configuration
  fails, \<^verbatim>\<open>load\<close> with \<^verbatim>\<open>ignoreErrors\<close> returns nil, and the slot holds another client
  than before; the previous one has been closed. In the second the SRV lookup fails and
  \<^verbatim>\<open>load\<close> with \<^verbatim>\<open>ignoreErrors\<close> writes one log line, that no endpoints are configured,
  which does not report the error.
\<close>

theorem load_unchanged_on_failure_counterexample:
  "tls_fails ex_no_tls_env ex_client ex_tls_config (ExternalError ''no such file'') \<and>
   fst (load ex_no_tls_env ex_client ex_tls_config True) = None \<and>
   client (run_state (load ex_no_tls_env ex_client ex_tls_config True)) \<noteq> client ex_client \<and>
   handle_events (run_trace (load ex_no_tls_env ex_client ex_tls_config True)) =
     [ClientClose ex_prev, ClientStore (NewClient (new_config [''10.0.0.1:2379''] None))] \<and>
   discovery_fails ex_no_srv_env ex_client ex_srv_config (ExternalError ''no such host'') \<and>
   run_trace (load ex_no_srv_env ex_client ex_srv_config True) =
     [SrvGetClient ''etcd-client'' ''example.com'' '''', Log LogNoEndpoints] \<and>
   logged_errors (run_trace (load ex_no_srv_env ex_client ex_srv_config True)) = []"
  by (simp add: ex_load_tls_disabled ex_load_no_srv run_trace_def run_state_def ex_failures)
     (simp add: ex_defs new_config_def)



text \<open>
  Claim C6. A client that \<^verbatim>\<open>load\<close> stores has TLS enabled if and only if the three
  options \<^verbatim>\<open>clientkey\<close>, \<^verbatim>\<open>clientcert\<close> and \<^verbatim>\<open>cacert\<close> are all non-empty and the TLS
  configuration built from them is built without error. Such a client has the endpoint
  list that \<^verbatim>\<open>load\<close> arrived at, which is not empty, and is the one in the slot afterwards.
\<close>

theorem load_tls_enabled_iff:
  assumes "ClientStore new \<in> set (run_trace (load e c config ig))"
  shows "(TLS (client_cfg new) \<noteq> None \<longleftrightarrow>
            option_value c config ''clientkey'' \<noteq> '''' \<and> option_value c config ''clientcert'' \<noteq> '''' \<and>
            option_value c config ''cacert'' \<noteq> '''' \<and>
            (\<exists>tc. tls_ClientConfig e (tls_info c config) = Inr tc)) \<and>
         Endpoints (client_cfg new) = endpoints_of e c config \<and> endpoints_of e c config \<noteq> [] \<and>
         client (run_state (load e c config ig)) = Some new"
  using load_stores [OF assms]
  by (auto simp add: new_config_def tls_of_def tls_specified_def split: sum.splits)

theorem load_tls_enabled_iff_witness:
  "ClientStore (NewClient (new_config [''10.0.0.1:2379''] (Some (TLSConfig 0))))
     \<in> set (run_trace (load ex_ok_env ex_client ex_tls_config False)) \<and>
   TLS (client_cfg (NewClient (new_config [''10.0.0.1:2379''] (Some (TLSConfig 0))))) \<noteq> None \<and>
   tls_ClientConfig ex_ok_env (tls_info ex_client ex_tls_config) = Inr (TLSConfig 0) \<and>
   ClientStore ex_new \<in> set (run_trace (load ex_ok_env ex_client ex_config True)) \<and>
   TLS (client_cfg ex_new) = None \<and> option_value ex_client ex_config ''clientkey'' = '''' \<and>
   ClientStore (NewClient (new_config [''10.0.0.1:2379''] None))
     \<in> set (run_trace (load ex_no_tls_env ex_client ex_tls_config True)) \<and>
   tls_ClientConfig ex_no_tls_env (tls_info ex_client ex_tls_config) = Inl (ExternalError ''no such file'')"
proof -
  have a: "ClientStore (NewClient (new_config [''10.0.0.1:2379''] (Some (TLSConfig 0))))
     \<in> set (run_trace (load ex_ok_env ex_client ex_tls_config False))"
    by (simp add: ex_load_tls run_trace_def)
  have b: "ClientStore ex_new \<in> set (run_trace (load ex_ok_env ex_client ex_config True))"
    by (simp add: ex_load_replace run_trace_def)
  have c: "ClientStore (NewClient (new_config [''10.0.0.1:2379''] None))
     \<in> set (run_trace (load ex_no_tls_env ex_client ex_tls_config True))"
    by (simp add: ex_load_tls_disabled run_trace_def)
  have t: "tls_ClientConfig ex_ok_env (tls_info ex_client ex_tls_config) = Inr (TLSConfig 0)"
    "tls_ClientConfig ex_no_tls_env (tls_info ex_client ex_tls_config) = Inl (ExternalError ''no such file'')"
    by (simp_all add: ex_ok_env_def ex_no_tls_env_def ex_env_def)
  from load_tls_enabled_iff [OF a] load_tls_enabled_iff [OF b] load_tls_enabled_iff [OF c] a b c t
  show ?thesis by (simp add: ex_option_values)
qed

subsection \<open>Listeners\<close>

text \<open>
  Claim C7. \<^verbatim>\<open>AddListener\<close> with a client installed makes exactly one notification of the
  new listener, and makes it with a \<^verbatim>\<open>go\<close> statement, so it does not wait for the
  listener; with no client installed it makes none. The listener is registered either way
  and the client slot is not touched.
\<close>

theorem AddListener_notifies_once:
  "(\<forall>cl. client c = Some cl \<longrightarrow> snd (AddListener c l) = [MuLock, Go l, MuUnlock]) \<and>
   (client c = None \<longrightarrow> snd (AddListener c l) = [MuLock, MuUnlock]) \<and>
   l \<in> set (list_of_dlist (listeners (fst (AddListener c l)))) \<and>
   client (fst (AddListener c l)) = client c"
  by (simp add: AddListener_def getEtcdClient_def Let_def)

theorem AddListener_notifies_once_witness:
  "client ex_client = Some ex_prev \<and> snd (AddListener ex_client 3) = [MuLock, Go 3, MuUnlock] \<and>
   client ex_fresh = None \<and> snd (AddListener ex_fresh 3) = [MuLock, MuUnlock]"
proof -
  have a: "client ex_client = Some ex_prev" by (simp add: ex_client_def)
  have b: "client ex_fresh = None" by (simp add: ex_fresh_def)
  from AddListener_notifies_once [of ex_client 3] AddListener_notifies_once [of ex_fresh 3] a b
  show ?thesis by simp
qed

text \<open>
  What the code does with the listeners, for every state: \<^verbatim>\<open>notifyListeners\<close> calls each
  registered listener once, in the calling goroutine and between taking and releasing
  the lock; a run of \<^verbatim>\<open>load\<close> that stores a client calls each listener registered at
  that time once and a run that stores none calls no listener; neither starts a goroutine.
\<close>

lemma notifyListeners_effects:
  "calls_under_lock False (notifyListeners c) = list_of_dlist (listeners c) \<and>
   distinct (calls_under_lock False (notifyListeners c)) \<and>
   spawns (notifyListeners c) = [] \<and>
   calls (run_trace (load e c config ig)) =
     (if \<exists>new. ClientStore new \<in> set (run_trace (load e c config ig))
      then list_of_dlist (listeners c) else []) \<and>
   spawns (run_trace (load e c config ig)) = []"
proof -
  have n: "calls_under_lock False (notifyListeners c) = list_of_dlist (listeners c)"
    using under_lock_map_Call [of "list_of_dlist (listeners c)" "[MuUnlock]"]
    by (simp add: notifyListeners_def)
  have s: "spawns (notifyListeners c) = []"
    by (simp add: notifyListeners_def spawns_append)
  have q: "calls (snd (load_endpoints e c config ig)) = []" "spawns (snd (load_endpoints e c config ig)) = []"
    "calls (snd (load_tls e c config ig)) = []" "spawns (snd (load_tls e c config ig)) = []"
    using quiet_load_endpoints [of e c config ig] quiet_load_tls [of e c config ig]
    by (simp_all add: quiet_def)
  have l: "calls (run_trace (load e c config ig)) =
     (if \<exists>new. ClientStore new \<in> set (run_trace (load e c config ig))
      then list_of_dlist (listeners c) else []) \<and>
   spawns (run_trace (load e c config ig)) = []"
  proof (cases "endpoints_of e c config = []")
    case True
    from load_without_endpoints [OF this, of ig] True show ?thesis
      by (simp add: load_stored_iff quiet_def)
  next
    case E: False
    show ?thesis
    proof (cases "ig \<or> (\<forall>err. \<not> tls_fails e c config err)")
      case True
      from load_run [OF E True] q E True show ?thesis
        unfolding load_stored_iff
        by (simp add: run_trace_def calls_append spawns_append load_install_quiet
              split: option.splits)
    next
      case False
      then obtain err where "tls_fails e c config err" and "\<not> ig" by blast
      with load_tls_fails [of e c config err] q False show ?thesis
        unfolding load_stored_iff
        by (auto simp add: run_trace_def calls_append spawns_append)
    qed
  qed
  from n s l show ?thesis by simp
qed

text \<open>
  Claim C8. When a client is (re)created, each listener registered at the time receives
  exactly one \<^verbatim>\<open>EtcdClientCreated\<close>, delivered without holding the lock of the listener
  set and dispatched on its own, so that a slow listener blocks neither the others nor
  the caller of \<^verbatim>\<open>load\<close>.

  \<^verbatim>\<open>AddListener\<close> delivers this notification with a \<^verbatim>\<open>go\<close> statement (line 204).
  \<^verbatim>\<open>notifyListeners\<close> does not: it takes the lock, calls every listener in turn in the
  goroutine that runs \<^verbatim>\<open>load\<close>, and releases the lock when the last one has returned
  (lines 187 to 192). The run below is \<^verbatim>\<open>load\<close> on a state with a client installed and
  the listeners 1 and 2 registered. Each of the two is called once, but both calls are
  made while the lock is held and no goroutine is started; \<^verbatim>\<open>AddListener\<close> on the same
  state starts one.
\<close>

theorem notifyListeners_holds_lock_run:
  "list_of_dlist (listeners ex_client) = [1, 2] \<and>
   run_trace (load ex_ok_env ex_client ex_config True) =
     [ClientNew (client_cfg ex_new), ClientClose ex_prev, ClientStore ex_new,
      Log (LogUsingEndpoints [''10.0.0.1:2379'', ''10.0.0.2:2379'']),
      MuLock, Call 1, Call 2, MuUnlock] \<and>
   notifyListeners (run_state (load ex_ok_env ex_client ex_config True)) =
     [MuLock, Call 1, Call 2, MuUnlock] \<and>
   calls_under_lock False (run_trace (load ex_ok_env ex_client ex_config True)) = [1, 2] \<and>
   spawns (run_trace (load ex_ok_env ex_client ex_config True)) = [] \<and>
   snd (AddListener ex_client 3) = [MuLock, Go 3, MuUnlock]"
proof -
  have l: "list_of_dlist (listeners ex_client) = [1, 2]" "client ex_client = Some ex_prev"
    by (simp_all add: ex_client_def)
  have a: "snd (AddListener ex_client 3) = [MuLock, Go 3, MuUnlock]"
    using l(2) by (simp add: AddListener_def getEtcdClient_def Let_def)
  from l a show ?thesis
    by (simp add: ex_load_replace run_trace_def run_state_def notifyListeners_def)
qed

subsection \<open>Watching, waiting and the nil client\<close>

text \<open>
  Claim C2. With a client installed, for every list of responses that the channel
  delivers, \<^verbatim>\<open>Watch\<close> calls \<^verbatim>\<open>EtcdWatchCreated\<close> once and first, then relays the
  events of the responses in their order, as \<open>relay_spec\<close> says (Put with key and value,
  Delete with the key, any other type dropped, the events after it still relayed), up to
  the first response whose \<^verbatim>\<open>Err()\<close> is not nil: \<^verbatim>\<open>Watch\<close> returns that error and nothing
  of that response or of a later one reaches the watcher. When the channel is closed
  without an error \<^verbatim>\<open>Watch\<close> returns nil.
\<close>

theorem Watch_relays_in_order:
  assumes "client c = Some cl"
  shows "fst (Watch e c ctx key opts) =
           Inr (case dropWhile (\<lambda>r. Err r = None) (client_Watch e cl ctx key opts) of
                  [] \<Rightarrow> None | r # _ \<Rightarrow> Err r) \<and>
         watcher_calls (snd (Watch e c ctx key opts)) =
           EtcdWatchCreated key #
           concat (map relay_spec
             (concat (map Events (takeWhile (\<lambda>r. Err r = None) (client_Watch e cl ctx key opts)))))"
  using assms Watch_loop_result [of "client_Watch e cl ctx key opts"]
    Watch_loop_calls [of "client_Watch e cl ctx key opts"]
  by (simp add: Watch_def getEtcdClient_def case_prod_beta)

theorem Watch_relays_in_order_witness:
  "client ex_client = Some ex_prev \<and>
   fst (Watch ex_ok_env ex_client 0 ''key'' []) = Inr (Some (ExternalError ''compacted'')) \<and>
   watcher_calls (snd (Watch ex_ok_env ex_client 0 ''key'' [])) =
     [EtcdWatchCreated ''key'', EtcdKeyUpdated ''a'' ''1'', EtcdKeyDeleted ''a'',
      EtcdKeyUpdated ''c'' ''3'']"
proof -
  have a: "client ex_client = Some ex_prev" by (simp add: ex_client_def)
  from a Watch_relays_in_order [OF a, of ex_ok_env 0 "''key''" "[]"] show ?thesis
    by (simp add: ex_ok_env_def ex_env_def relay_spec_def EventTypePut_def EventTypeDelete_def)
qed

text \<open>
  Claim C5. With a client installed and delays \<open>0 \<le> initialWaitDelay \<le> maxWaitDelay < 2\<^sup>6\<^sup>2\<close>
  nanoseconds: when \<^verbatim>\<open>Sync\<close> fails \<open>N\<close> times and then succeeds, \<^verbatim>\<open>WaitForConnection\<close>
  returns, and the delays it has slept are the first \<open>N\<close> of the doubling sequence from
  the initial delay, capped at the maximum; this for every \<open>N\<close>. When \<^verbatim>\<open>Sync\<close> never
  succeeds, \<^verbatim>\<open>WaitForConnection\<close> never returns.
\<close>

theorem WaitForConnection_retries_with_backoff:
  assumes "client c = Some cl" and "0 \<le> initial" and "initial \<le> maxd" and "maxd < 2 ^ 62"
  shows "((\<forall>i<N. client_Sync e i \<noteq> None) \<and> client_Sync e N = None \<longrightarrow>
           (\<exists>t. WaitForConnection e initial maxd c = Some (Inr (), t) \<and>
                sleeps t = backoff_spec initial maxd N)) \<and>
         ((\<forall>i. client_Sync e i \<noteq> None) \<longrightarrow> WaitForConnection e initial maxd c = None)"
  using WaitForConnection_backoff [OF assms] by blast

theorem WaitForConnection_retries_with_backoff_witness:
  "client ex_client = Some ex_prev \<and> (0::int) \<le> Second \<and> Second \<le> 8 * Second \<and>
   8 * Second < 2 ^ 62 \<and>
   (\<exists>t. WaitForConnection ex_ok_env Second (8 * Second) ex_client = Some (Inr (), t) \<and>
        sleeps t = [Second, 2 * Second, 4 * Second, 8 * Second, 8 * Second]) \<and>
   WaitForConnection ex_down_env Second (8 * Second) ex_client = None"
proof -
  have a: "client ex_client = Some ex_prev" by (simp add: ex_client_def)
  have b: "(0::int) \<le> Second" "Second \<le> 8 * Second" "8 * Second < 2 ^ 62"
    by (simp_all add: Second_def)
  have f: "(\<forall>i<5. client_Sync ex_ok_env i \<noteq> None) \<and> client_Sync ex_ok_env 5 = None"
    by (simp add: ex_ok_env_def ex_env_def)
  have d: "\<forall>i. client_Sync ex_down_env i \<noteq> None"
    by (simp add: ex_down_env_def)
  have s: "backoff_spec Second (8 * Second) 5 = [Second, 2 * Second, 4 * Second, 8 * Second, 8 * Second]"
    by (simp add: backoff_spec_def Second_def upt_rec)
  from WaitForConnection_retries_with_backoff [OF a b, of 5 ex_ok_env] f s
  have one: "\<exists>t. WaitForConnection ex_ok_env Second (8 * Second) ex_client = Some (Inr (), t) \<and>
        sleeps t = [Second, 2 * Second, 4 * Second, 8 * Second, 8 * Second]"
    by simp
  from WaitForConnection_retries_with_backoff [OF a b, of 0 ex_down_env] d
  have two: "WaitForConnection ex_down_env Second (8 * Second) ex_client = None"
    by simp
  from a b one two show ?thesis by simp
qed

text \<open>
  Claim C10. With no client installed, \<^verbatim>\<open>Get\<close>, \<^verbatim>\<open>Watch\<close> and \<^verbatim>\<open>WaitForConnection\<close> call
  a method through the nil handle and panic (\<^verbatim>\<open>Watch\<close> before it reaches the watcher),
  while \<^verbatim>\<open>Close\<close> returns nil and \<^verbatim>\<open>IsConfigured\<close> returns false. With a client installed
  none of the three panics. \<^verbatim>\<open>NewEtcdClient\<close> for a configuration without endpoints
  returns an \<^verbatim>\<open>EtcdClient\<close> with no client installed.
\<close>

theorem nil_client:
  "(client c = None \<longrightarrow>
      Get e c ctx key opts = Inl NilPointerDereference \<and>
      fst (Watch e c ctx key opts) = Inl NilPointerDereference \<and>
      watcher_calls (snd (Watch e c ctx key opts)) = [] \<and>
      WaitForConnection e initial maxd c = Some (Inl NilPointerDereference, []) \<and>
      Close e c = (Inr None, []) \<and> \<not> IsConfigured c) \<and>
   (\<forall>cl. client c = Some cl \<longrightarrow>
      IsConfigured c \<and> Close e c = (Inr (client_Close e cl), [ClientClose cl]) \<and>
      Get e c ctx key opts = Inr (client_Get e cl ctx key opts) \<and>
      (\<exists>r. fst (Watch e c ctx key opts) = Inr r) \<and>
      (\<forall>t. WaitForConnection e initial maxd c \<noteq> Some (Inl NilPointerDereference, t))) \<and>
   NewEtcdClient e Map.empty section =
     (Inr \<lparr>compatSection = section, client = None, listeners = Dlist.empty\<rparr>, [])"
proof (intro conjI impI allI)
  assume n: "client c = None"
  from operations_on_nil [OF n, of e ctx key opts initial maxd]
  show "Get e c ctx key opts = Inl NilPointerDereference"
    and "fst (Watch e c ctx key opts) = Inl NilPointerDereference"
    and "watcher_calls (snd (Watch e c ctx key opts)) = []"
    and "WaitForConnection e initial maxd c = Some (Inl NilPointerDereference, [])"
    and "Close e c = (Inr None, [])" and "\<not> IsConfigured c"
    by simp_all
next
  fix cl assume s: "client c = Some cl"
  show "IsConfigured c" using s by (simp add: IsConfigured_def getEtcdClient_def)
  show "Close e c = (Inr (client_Close e cl), [ClientClose cl])" using s by (simp add: Close_def getEtcdClient_def)
  show "Get e c ctx key opts = Inr (client_Get e cl ctx key opts)"
    using s by (simp add: Get_def getEtcdClient_def)
  show "\<exists>r. fst (Watch e c ctx key opts) = Inr r"
    using s by (simp add: Watch_def getEtcdClient_def case_prod_beta)
  fix t
  show "WaitForConnection e initial maxd c \<noteq> Some (Inl NilPointerDereference, t)"
  proof
    assume "WaitForConnection e initial maxd c = Some (Inl NilPointerDereference, t)"
    then have "WaitForConnection_loop e maxd c 0 initial [] = Some (Inl NilPointerDereference, t)"
      by (simp add: WaitForConnection_def)
    from loop_result [OF this] s show False by simp
  qed
next
  show "NewEtcdClient e Map.empty section =
     (Inr \<lparr>compatSection = section, client = None, listeners = Dlist.empty\<rparr>, [])"
    by (simp add: NewEtcdClient_def run_defs)
qed

theorem nil_client_witness:
  "NewEtcdClient ex_ok_env Map.empty ''mcu'' = (Inr ex_fresh, []) \<and> client ex_fresh = None \<and>
   Get ex_ok_env ex_fresh 0 ''key'' [] = Inl NilPointerDereference \<and>
   fst (Watch ex_ok_env ex_fresh 0 ''key'' []) = Inl NilPointerDereference \<and>
   WaitForConnection ex_ok_env Second (8 * Second) ex_fresh = Some (Inl NilPointerDereference, []) \<and>
   Close ex_ok_env ex_fresh = (Inr None, []) \<and> \<not> IsConfigured ex_fresh \<and>
   client ex_client = Some ex_prev \<and> IsConfigured ex_client \<and>
   Get ex_ok_env ex_client 0 ''key'' [] = Inr (Inr []) \<and>
   Close ex_ok_env ex_client = (Inr None, [ClientClose ex_prev])"
proof -
  have a: "client ex_fresh = None" by (simp add: ex_fresh_def)
  have b: "client ex_client = Some ex_prev" by (simp add: ex_client_def)
  have g: "client_Get ex_ok_env ex_prev 0 ''key'' [] = Inr []" "client_Close ex_ok_env ex_prev = None"
    by (simp_all add: ex_ok_env_def ex_env_def)
  have f: "\<lparr>compatSection = ''mcu'', client = None, listeners = Dlist.empty\<rparr> = ex_fresh"
    by (simp add: ex_fresh_def)
  from nil_client [of ex_fresh ex_ok_env 0 "''key''" "[]" Second "8 * Second" "''mcu''"]
    nil_client [of ex_client ex_ok_env 0 "''key''" "[]" Second "8 * Second" "''mcu''"] a b g f
  show ?thesis by simp
qed

subsection \<open>Reloadable credentials\<close>

text \<open>
  Claim C9. \<^verbatim>\<open>WaitForCertificateReload\<close> returns an error (\<^verbatim>\<open>no certificate loaded\<close>) when
  no certificate loader is attached, \<^verbatim>\<open>WaitForCertPoolReload\<close> returns one
  (\<^verbatim>\<open>no certificate pool loaded\<close>) when no pool is attached; otherwise each returns what
  \<^verbatim>\<open>WaitForReload\<close> of the attached loader returns for the context of the caller.
\<close>

theorem WaitForReload_not_configured:
  "(loader c = None \<longrightarrow>
      WaitForCertificateReload w c ctx = Some (ErrorsNew ''no certificate loaded'')) \<and>
   (pool c = None \<longrightarrow>
      WaitForCertPoolReload w' c ctx = Some (ErrorsNew ''no certificate pool loaded'')) \<and>
   (\<forall>l. loader c = Some l \<longrightarrow> WaitForCertificateReload w c ctx = w l ctx) \<and>
   (\<forall>p. pool c = Some p \<longrightarrow> WaitForCertPoolReload w' c ctx = w' p ctx)"
  by (simp add: WaitForCertificateReload_def WaitForCertPoolReload_def)

theorem WaitForReload_not_configured_witness:
  "loader ex_no_credentials = None \<and> pool ex_no_credentials = None \<and>
   WaitForCertificateReload ex_WaitForReload ex_no_credentials 0 =
     Some (ErrorsNew ''no certificate loaded'') \<and>
   WaitForCertPoolReload ex_WaitForReload ex_no_credentials 0 =
     Some (ErrorsNew ''no certificate pool loaded'') \<and>
   loader ex_credentials = Some 1 \<and> pool ex_credentials = Some 2 \<and>
   WaitForCertificateReload ex_WaitForReload ex_credentials 0 = Some DeadlineExceeded \<and>
   WaitForCertPoolReload ex_WaitForReload ex_credentials 7 = None"
proof -
  have n: "loader ex_no_credentials = None" "pool ex_no_credentials = None"
    by (simp_all add: ex_no_credentials_def)
  have s: "loader ex_credentials = Some 1" "pool ex_credentials = Some 2"
    by (simp_all add: ex_credentials_def)
  have v: "ex_WaitForReload 1 0 = Some DeadlineExceeded" "ex_WaitForReload 2 7 = None"
    by (simp_all add: ex_WaitForReload_def)
  from WaitForReload_not_configured [of ex_no_credentials ex_WaitForReload 0 ex_WaitForReload]
    WaitForReload_not_configured [of ex_credentials ex_WaitForReload 0 ex_WaitForReload]
    WaitForReload_not_configured [of ex_credentials ex_WaitForReload 7 ex_WaitForReload]
    n s v
  show ?thesis by simp
qed

end
